theory Spec2Isabelle
  imports Complex_Main "HOL-Library.Multiset" "HOL-Library.Log_Nat"
begin

section \<open>Values of the host language\<close>

text \<open>
  A JavaScript number is a double: a finite value, one of the two infinities, or NaN. A
  finite double is held as the rational it denotes. Negative zero is identified with zero
  (the two are equal under every comparison of the program and both are written \<open>0\<close> in a
  JSON response; a division by negative zero gives the other infinity, and both
  infinities are written \<open>null\<close>).
\<close>

datatype jsnum = Fin rat | PInf | NInf | NaN

subsection \<open>Rounding to the nearest double\<close>

text \<open>The binary exponent of a positive rational: \<open>2 ^ binade x \<le> x < 2 ^ (binade x + 1)\<close>.\<close>

definition binade :: "rat \<Rightarrow> int" where
  "binade x =
     (let e = bitlen (fst (quotient_of x)) - bitlen (snd (quotient_of x))
      in if 2 powi e \<le> x then e else e - 1)"

text \<open>The nearest integer, a tie going to the even one.\<close>

definition round_half_even :: "rat \<Rightarrow> int" where
  "round_half_even y =
     (let f = \<lfloor>y\<rfloor>; d = y - of_int f
      in if d < 1 / 2 then f
         else if 1 / 2 < d then f + 1
         else if even f then f else f + 1)"

text \<open>
  The result of an arithmetic operation whose exact value is \<open>x\<close>, in binary64 with
  rounding to nearest, ties to even: 53 significant bits, exponents from \<open>-1022\<close> (below
  which the spacing stays \<open>2 ^ -1074\<close>) to 1023 (above which the rounded value
  overflows to an infinity).
\<close>

definition round_double :: "rat \<Rightarrow> jsnum" where
  "round_double x =
     (if x = 0 then Fin 0
      else (let e = max (binade \<bar>x\<bar>) (- 1022);
                ulp = 2 powi (e - 52);
                r = of_int (round_half_even (x / ulp)) * ulp
            in if r = 0 then Fin 0
               else if 1023 < binade \<bar>r\<bar> then (if 0 < r then PInf else NInf)
               else Fin r))"

text \<open>
  \<open>ToNumber\<close> (string to number coercion, as done by \<open>Number(s)\<close>, \<open>s * 1\<close> and
  \<open>n / s\<close>; its finite results are doubles) and the \<open>RegExp\<close> constructor with flag
  \<open>i\<close> are built-ins of the language, not code of the repository. They are parameters of
  the model: every theorem below holds for any choice of them. \<open>RegExp_i pat\<close> is \<open>None\<close>
  when the constructor throws a SyntaxError, and otherwise the test "the pattern matches
  somewhere in the subject".

  Three more parameters belong to the store and its driver. \<open>cursor_ok l s\<close> tells
  whether a find with \<open>limit(l)\<close> and \<open>skip(s)\<close> is executed or rejected.
  \<open>geo_ok t cs\<close> tells whether the 2dsphere index on \<open>location.coordinates\<close> accepts a
  document whose \<open>location.coordinates\<close> has \<open>type\<close> \<open>t\<close> (if any) and \<open>coordinates\<close>
  \<open>cs\<close>. \<open>ObjectId_cast\<close> is the cast of a text to an ObjectId (\<open>None\<close> when it
  throws), and \<open>ObjectId_text\<close> is \<open>toString()\<close> of an ObjectId.
\<close>

type_synonym object_id = nat

record js_runtime =
  ToNumber :: "string \<Rightarrow> jsnum"
  RegExp_i :: "string \<Rightarrow> (string \<Rightarrow> bool) option"
  cursor_ok :: "jsnum \<Rightarrow> jsnum \<Rightarrow> bool"
  geo_ok :: "string option \<Rightarrow> jsnum list \<Rightarrow> bool"
  ObjectId_cast :: "string \<Rightarrow> object_id option"
  ObjectId_text :: "object_id \<Rightarrow> string"

text \<open>A value that is either the numeric default of a destructuring or the text of a
  query parameter.\<close>

datatype jsval = JNumber jsnum | JString string

fun to_number :: "js_runtime \<Rightarrow> jsval \<Rightarrow> jsnum" where
  "to_number rt (JNumber n) = n"
| "to_number rt (JString s) = ToNumber rt s"

text \<open>\<open>const { x = d } = req.query\<close>: the default is taken only when the parameter is
  undefined.\<close>

fun or_default :: "string option \<Rightarrow> jsnum \<Rightarrow> jsval" where
  "or_default None d = JNumber d"
| "or_default (Some s) d = JString s"

text \<open>\<open>if (x)\<close> on a query parameter: undefined and the empty string are falsy.\<close>

fun truthy :: "string option \<Rightarrow> bool" where
  "truthy None = False"
| "truthy (Some s) = (s \<noteq> [])"

fun js_times :: "jsnum \<Rightarrow> jsnum \<Rightarrow> jsnum" where
  "js_times NaN y = NaN"
| "js_times x NaN = NaN"
| "js_times (Fin a) (Fin b) = round_double (a * b)"
| "js_times (Fin a) PInf = (if a = 0 then NaN else if 0 < a then PInf else NInf)"
| "js_times (Fin a) NInf = (if a = 0 then NaN else if 0 < a then NInf else PInf)"
| "js_times PInf (Fin b) = (if b = 0 then NaN else if 0 < b then PInf else NInf)"
| "js_times NInf (Fin b) = (if b = 0 then NaN else if 0 < b then NInf else PInf)"
| "js_times PInf PInf = PInf"
| "js_times PInf NInf = NInf"
| "js_times NInf PInf = NInf"
| "js_times NInf NInf = PInf"

fun js_minus :: "jsnum \<Rightarrow> jsnum \<Rightarrow> jsnum" where
  "js_minus NaN y = NaN"
| "js_minus x NaN = NaN"
| "js_minus (Fin a) (Fin b) = round_double (a - b)"
| "js_minus (Fin a) PInf = NInf"
| "js_minus (Fin a) NInf = PInf"
| "js_minus PInf (Fin b) = PInf"
| "js_minus NInf (Fin b) = NInf"
| "js_minus PInf PInf = NaN"
| "js_minus PInf NInf = PInf"
| "js_minus NInf PInf = NInf"
| "js_minus NInf NInf = NaN"

fun js_divide :: "jsnum \<Rightarrow> jsnum \<Rightarrow> jsnum" where
  "js_divide NaN y = NaN"
| "js_divide x NaN = NaN"
| "js_divide (Fin a) (Fin b) =
     (if b = 0 then (if a = 0 then NaN else if 0 < a then PInf else NInf)
      else round_double (a / b))"
| "js_divide (Fin a) PInf = Fin 0"
| "js_divide (Fin a) NInf = Fin 0"
| "js_divide PInf (Fin b) = (if 0 \<le> b then PInf else NInf)"
| "js_divide NInf (Fin b) = (if 0 \<le> b then NInf else PInf)"
| "js_divide PInf PInf = NaN"
| "js_divide PInf NInf = NaN"
| "js_divide NInf PInf = NaN"
| "js_divide NInf NInf = NaN"

text \<open>\<open>Math.ceil\<close>: the least integer not below a double is a double again.\<close>

fun Math_ceil :: "jsnum \<Rightarrow> jsnum" where
  "Math_ceil (Fin a) = Fin (of_int \<lceil>a\<rceil>)"
| "Math_ceil x = x"

text \<open>\<open>x <= y\<close> on numbers; every comparison with NaN is false.\<close>

fun js_le :: "jsnum \<Rightarrow> jsnum \<Rightarrow> bool" where
  "js_le NaN y = False"
| "js_le x NaN = False"
| "js_le NInf y = True"
| "js_le x PInf = True"
| "js_le PInf y = False"
| "js_le x NInf = False"
| "js_le (Fin a) (Fin b) = (a \<le> b)"

text \<open>A number as \<open>res.json\<close> writes it: \<open>JSON.stringify\<close> turns the infinities and NaN
  into \<open>null\<close>.\<close>

fun json_number :: "jsnum \<Rightarrow> rat option" where
  "json_number (Fin a) = Some a"
| "json_number x = None"

subsection \<open>Strings\<close>

text \<open>
  A text is a list of characters of the range U+0000 to U+00FF, a \<open>char\<close> standing for
  the character of that code; characters beyond this range are not representable. White
  space is the part of the class \<open>\s\<close> in this range, which is what \<open>trim\<close> strips: tab,
  line feed, vertical tab, form feed, carriage return, space and the no-break space.
\<close>

definition is_space :: "char \<Rightarrow> bool" where
  "is_space c =
     (c \<in> set [CHR 0x09, CHR 0x0A, CHR 0x0B, CHR 0x0C, CHR 0x0D, CHR 0x20, CHR 0xA0])"

definition trim :: "string \<Rightarrow> string" where
  "trim s = rev (dropWhile is_space (rev (dropWhile is_space s)))"

definition is_digit :: "char \<Rightarrow> bool" where
  "is_digit c = (c \<in> set ''0123456789'')"

text \<open>\<open>amenities.split(',')\<close>\<close>

fun split_comma :: "string \<Rightarrow> string list" where
  "split_comma [] = [[]]"
| "split_comma (c # cs) =
     (if c = CHR '','' then [] # split_comma cs
      else (case split_comma cs of
              [] \<Rightarrow> [[c]]
            | w # ws \<Rightarrow> (c # w) # ws))"

section \<open>Data model\<close>

text \<open>
  An ObjectId is an opaque identifier and a date is a natural-number timestamp. A route
  parameter that names a document, and the value a request body gives to an ObjectId,
  Date or Boolean path, are taken as already cast: a request whose text for one of them is
  malformed ends in the catch block and is outside the model. The exception are the
  favourites routes, which compare the text of the route parameter itself.
\<close>

text \<open>An element of \<open>inquiries\<close>; \<open>user\<close> and \<open>message\<close> are optional in the schema.\<close>

record inquiry =
  i_user :: "object_id option"
  message :: "string option"
  i_createdAt :: nat

text \<open>
  The Property document of the schema. \<open>images\<close> and \<open>documents\<close> (arrays without
  validators that no handler inspects) and the \<open>updatedAt\<close> timestamp are left out. A path
  without a default that was never set is \<open>None\<close>; after an update has replaced the
  \<open>area\<close> or \<open>location\<close> object this can also be the case for \<open>area.unit\<close> and
  \<open>location.coordinates.type\<close>.
\<close>

record property =
  p_id :: object_id
  title :: string
  description :: string
  propertyType :: string
  listingType :: string
  price :: jsnum
  currency :: string
  area_value :: jsnum
  area_unit :: "string option"
  bedrooms :: "jsnum option"
  bathrooms :: "jsnum option"
  parking :: "jsnum option"
  furnishing :: "string option"
  floor_no :: "jsnum option"
  totalFloors :: "jsnum option"
  age :: "jsnum option"
  facing :: "string option"
  location_address :: string
  location_city :: string
  location_state :: string
  location_pincode :: string
  coordinates_type :: "string option"
  coordinates :: "jsnum list"
  amenities :: "string list"
  owner :: object_id
  status :: string
  featured :: bool
  views :: "jsnum option"
  inquiries :: "inquiry list"
  createdAt :: nat

text \<open>
  Modelled from the spec: the User schema (\<open>models/User.js\<close>) is not among the source
  files. The spec gives a user a name, an email, a role among user, agent and admin, and
  an ordered list of favourite Property references.
\<close>

record user =
  u_id :: object_id
  name :: string
  email :: string
  role :: string
  favorites :: "object_id list"

text \<open>The two collections, each in store order.\<close>

record db =
  properties :: "property list"
  users :: "user list"

text \<open>\<open>req.user\<close>, as the \<open>protect\<close> middleware leaves it for an authenticated request.\<close>

record actor =
  a_id :: object_id
  a_role :: string

text \<open>
  A request body of the property routes: a JSON object with \<open>area\<close>, \<open>location\<close> and
  \<open>location.coordinates\<close> written as nested objects (a body that spells nested paths as
  dotted keys is outside the model), restricted to the paths of the schema modelled above.
  A field is \<open>None\<close> when the body does not carry it; text and numbers are held as their
  text, which is what the validators see. The elements of \<open>inquiries\<close> are given as they
  are stored after the cast, \<open>createdAt\<close> being the element's own or, when it carries
  none, the clock's.
\<close>

record property_body =
  b_title :: "string option"
  b_description :: "string option"
  b_propertyType :: "string option"
  b_listingType :: "string option"
  b_price :: "string option"
  b_currency :: "string option"
  b_area_value :: "string option"
  b_area_unit :: "string option"
  b_bedrooms :: "string option"
  b_bathrooms :: "string option"
  b_parking :: "string option"
  b_furnishing :: "string option"
  b_floor :: "string option"
  b_totalFloors :: "string option"
  b_age :: "string option"
  b_facing :: "string option"
  b_address :: "string option"
  b_city :: "string option"
  b_state :: "string option"
  b_pincode :: "string option"
  b_coordinates_type :: "string option"
  b_coordinates :: "string list option"
  b_amenities :: "string list option"
  b_owner :: "object_id option"
  b_status :: "string option"
  b_featured :: "bool option"
  b_views :: "string option"
  b_inquiries :: "inquiry list option"
  b_createdAt :: "nat option"

text \<open>The body of a response and its HTTP status.\<close>

record pagination =
  total :: nat
  page :: "rat option"
  pages :: "rat option"

record dashboard =
  totalUsers :: nat
  totalProperties :: nat
  pendingProperties :: nat
  activeProperties :: nat
  totalAgents :: nat
  totalInquiries :: nat

datatype reply =
    Errors "string list"
  | Failure string
  | Success_message string
  | Property_data property
  | Null_data
  | Page_data pagination
  | Dashboard_data dashboard

type_synonym response = "nat \<times> reply"

section \<open>Request validation (express-validator)\<close>

text \<open>A validator sees the text of a field; an absent field is the empty text.\<close>

fun field_text :: "string option \<Rightarrow> string" where
  "field_text None = []"
| "field_text (Some s) = s"

definition notEmpty :: "string \<Rightarrow> bool" where
  "notEmpty s = (s \<noteq> [])"

definition isIn :: "string list \<Rightarrow> string \<Rightarrow> bool" where
  "isIn vs s = (s \<in> set vs)"

text \<open>\<open>isNumeric\<close> with its default options: the pattern \<open>^[+-]?([0-9]*[.])?[0-9]+$\<close>.\<close>

definition isNumeric :: "string \<Rightarrow> bool" where
  "isNumeric s =
     (let r = (case s of
                 [] \<Rightarrow> []
               | c # cs \<Rightarrow> if c = CHR ''+'' \<or> c = CHR ''-'' then cs else s);
          a = takeWhile is_digit r;
          rest = dropWhile is_digit r
      in case rest of
           [] \<Rightarrow> a \<noteq> []
         | c # b \<Rightarrow> c = CHR ''.'' \<and> b \<noteq> [] \<and> list_all is_digit b)"

definition propertyType_enum :: "string list" where
  "propertyType_enum =
     [''Apartment'', ''House'', ''Villa'', ''Plot'', ''Commercial'', ''Farmhouse'']"

definition listingType_enum :: "string list" where
  "listingType_enum = [''Sale'', ''Rent'']"

definition area_unit_enum :: "string list" where
  "area_unit_enum = [''sq ft'', ''sq m'', ''sq yd'', ''acre'']"

definition furnishing_enum :: "string list" where
  "furnishing_enum = [''Furnished'', ''Semi-Furnished'', ''Unfurnished'']"

definition facing_enum :: "string list" where
  "facing_enum =
     [''North'', ''South'', ''East'', ''West'', ''North-East'', ''North-West'',
      ''South-East'', ''South-West'']"

definition coordinates_type_enum :: "string list" where
  "coordinates_type_enum = [''Point'']"

definition status_enum :: "string list" where
  "status_enum = [''active'', ''pending'', ''sold'', ''rented'']"

definition amenities_enum :: "string list" where
  "amenities_enum =
     [''Parking'', ''Gym'', ''Swimming Pool'', ''Security'', ''Power Backup'', ''Lift'',
      ''Garden'', ''Club House'', ''Park'', ''School'', ''Hospital'', ''Shopping Mall'',
      ''Metro Station'', ''Bus Stop'']"

text \<open>One link of a validation chain: the message when the check fails.\<close>

definition check :: "bool \<Rightarrow> string \<Rightarrow> string list" where
  "check ok msg = (if ok then [] else [msg])"

text \<open>\<open>propertyValidation\<close>: the messages of \<open>validationResult(req).array()\<close>, in the
  order of the chains.\<close>

definition propertyValidation :: "property_body \<Rightarrow> string list" where
  "propertyValidation b =
     check (notEmpty (trim (field_text (b_title b)))) ''Title is required'' @
     check (notEmpty (trim (field_text (b_description b)))) ''Description is required'' @
     check (isIn propertyType_enum (field_text (b_propertyType b))) ''Invalid property type'' @
     check (isIn listingType_enum (field_text (b_listingType b))) ''Invalid listing type'' @
     check (isNumeric (field_text (b_price b))) ''Price must be a number'' @
     check (isNumeric (field_text (b_area_value b))) ''Area value must be a number'' @
     check (notEmpty (trim (field_text (b_address b)))) ''Address is required'' @
     check (notEmpty (trim (field_text (b_city b)))) ''City is required'' @
     check (notEmpty (trim (field_text (b_state b)))) ''State is required'' @
     check (notEmpty (trim (field_text (b_pincode b)))) ''Pincode is required''"

text \<open>The \<open>trim()\<close> sanitizers of the chains rewrite the fields of \<open>req.body\<close> they are
  applied to.\<close>

definition sanitized :: "property_body \<Rightarrow> property_body" where
  "sanitized b =
     b\<lparr>b_title := map_option trim (b_title b),
       b_description := map_option trim (b_description b),
       b_address := map_option trim (b_address b),
       b_city := map_option trim (b_city b),
       b_state := map_option trim (b_state b),
       b_pincode := map_option trim (b_pincode b)\<rparr>"

section \<open>The Property model (mongoose)\<close>

datatype mongoose_error = ValidationError | CastError | MongoServerError

text \<open>The cast of a Number path: the empty text is null, other text is converted with
  \<open>Number\<close>, and NaN is a CastError.\<close>

fun cast_ok :: "js_runtime \<Rightarrow> string option \<Rightarrow> bool" where
  "cast_ok rt None = True"
| "cast_ok rt (Some s) = (s = [] \<or> ToNumber rt s \<noteq> NaN)"

fun cast_value :: "js_runtime \<Rightarrow> string option \<Rightarrow> jsnum option" where
  "cast_value rt None = None"
| "cast_value rt (Some s) = (if s = [] then None else Some (ToNumber rt s))"

text \<open>The cast of \<open>location.coordinates.coordinates\<close>, an array of numbers. (An element that
  casts to null is counted as a failed cast: the request ends in the catch block either
  way.)\<close>

fun coordinates_cast_ok :: "js_runtime \<Rightarrow> string list option \<Rightarrow> bool" where
  "coordinates_cast_ok rt None = True"
| "coordinates_cast_ok rt (Some cs) = list_all (\<lambda>s. s \<noteq> [] \<and> ToNumber rt s \<noteq> NaN) cs"

definition casts_ok :: "js_runtime \<Rightarrow> property_body \<Rightarrow> bool" where
  "casts_ok rt b =
     (cast_ok rt (b_price b) \<and> cast_ok rt (b_area_value b) \<and> cast_ok rt (b_bedrooms b) \<and>
      cast_ok rt (b_bathrooms b) \<and> cast_ok rt (b_parking b) \<and> cast_ok rt (b_floor b) \<and>
      cast_ok rt (b_totalFloors b) \<and> cast_ok rt (b_age b) \<and> cast_ok rt (b_views b) \<and>
      coordinates_cast_ok rt (b_coordinates b))"

text \<open>The validators of the schema: \<open>required\<close>, \<open>enum\<close> and \<open>min: 0\<close>. A path that is
  not set passes \<open>enum\<close> and \<open>min\<close>.\<close>

fun required_string :: "string option \<Rightarrow> bool" where
  "required_string None = False"
| "required_string (Some s) = (s \<noteq> [])"

fun enum_ok :: "string list \<Rightarrow> string option \<Rightarrow> bool" where
  "enum_ok vs None = True"
| "enum_ok vs (Some s) = (s \<in> set vs)"

fun min0_ok :: "jsnum option \<Rightarrow> bool" where
  "min0_ok None = True"
| "min0_ok (Some n) = js_le (Fin 0) n"

fun amenities_ok :: "string list option \<Rightarrow> bool" where
  "amenities_ok None = True"
| "amenities_ok (Some xs) = list_all (\<lambda>a. a \<in> set amenities_enum) xs"

text \<open>The validators that run when a new document is saved; \<open>owner\<close> and
  \<open>location.coordinates.coordinates\<close>, also required, are checked in \<open>Property_create\<close>.\<close>

definition create_valid :: "js_runtime \<Rightarrow> property_body \<Rightarrow> bool" where
  "create_valid rt b =
     (required_string (map_option trim (b_title b)) \<and>
      required_string (b_description b) \<and>
      required_string (b_propertyType b) \<and> enum_ok propertyType_enum (b_propertyType b) \<and>
      required_string (b_listingType b) \<and> enum_ok listingType_enum (b_listingType b) \<and>
      cast_value rt (b_price b) \<noteq> None \<and>
      cast_value rt (b_area_value b) \<noteq> None \<and>
      enum_ok area_unit_enum (b_area_unit b) \<and>
      min0_ok (cast_value rt (b_bedrooms b)) \<and>
      min0_ok (cast_value rt (b_bathrooms b)) \<and>
      min0_ok (cast_value rt (b_parking b)) \<and>
      enum_ok furnishing_enum (b_furnishing b) \<and>
      enum_ok facing_enum (b_facing b) \<and>
      required_string (b_address b) \<and> required_string (b_city b) \<and>
      required_string (b_state b) \<and> required_string (b_pincode b) \<and>
      enum_ok coordinates_type_enum (b_coordinates_type b) \<and>
      amenities_ok (b_amenities b) \<and>
      enum_ok status_enum (b_status b))"

text \<open>
  \<open>Property.create(doc)\<close>: cast every path, fill in the defaults, validate, and insert.
  \<open>new_id\<close> is the \<open>_id\<close> the driver generates and \<open>now\<close> the clock. The insert is
  refused when the 2dsphere index does not accept \<open>location.coordinates\<close>.
\<close>

definition Property_create ::
  "js_runtime \<Rightarrow> object_id \<Rightarrow> nat \<Rightarrow> property_body \<Rightarrow> mongoose_error + property" where
  "Property_create rt new_id now b =
     (if \<not> casts_ok rt b then Inl CastError
      else (case (b_owner b, b_coordinates b, cast_value rt (b_price b),
                  cast_value rt (b_area_value b)) of
              (Some ow, Some cs, Some pr, Some ar) \<Rightarrow>
                if \<not> create_valid rt b then Inl ValidationError
                else if \<not> geo_ok rt
                       (Some (case b_coordinates_type b of None \<Rightarrow> ''Point'' | Some t \<Rightarrow> t))
                       (map (ToNumber rt) cs)
                then Inl MongoServerError
                else Inr \<lparr>p_id = new_id,
                          title = trim (field_text (b_title b)),
                          description = field_text (b_description b),
                          propertyType = field_text (b_propertyType b),
                          listingType = field_text (b_listingType b),
                          price = pr,
                          currency = (case b_currency b of None \<Rightarrow> ''INR'' | Some c \<Rightarrow> c),
                          area_value = ar,
                          area_unit =
                            Some (case b_area_unit b of None \<Rightarrow> ''sq ft'' | Some u \<Rightarrow> u),
                          bedrooms = cast_value rt (b_bedrooms b),
                          bathrooms = cast_value rt (b_bathrooms b),
                          parking = cast_value rt (b_parking b),
                          furnishing = b_furnishing b,
                          floor_no = cast_value rt (b_floor b),
                          totalFloors = cast_value rt (b_totalFloors b),
                          age = cast_value rt (b_age b),
                          facing = b_facing b,
                          location_address = field_text (b_address b),
                          location_city = field_text (b_city b),
                          location_state = field_text (b_state b),
                          location_pincode = field_text (b_pincode b),
                          coordinates_type =
                            Some (case b_coordinates_type b of None \<Rightarrow> ''Point'' | Some t \<Rightarrow> t),
                          coordinates = map (ToNumber rt) cs,
                          amenities = (case b_amenities b of None \<Rightarrow> [] | Some xs \<Rightarrow> xs),
                          owner = ow,
                          status = (case b_status b of None \<Rightarrow> ''pending'' | Some s \<Rightarrow> s),
                          featured = (case b_featured b of None \<Rightarrow> False | Some f \<Rightarrow> f),
                          views =
                            (case b_views b of
                               None \<Rightarrow> Some (Fin 0)
                             | Some s \<Rightarrow> cast_value rt (Some s)),
                          inquiries = (case b_inquiries b of None \<Rightarrow> [] | Some xs \<Rightarrow> xs),
                          createdAt = (case b_createdAt b of None \<Rightarrow> now | Some t \<Rightarrow> t)\<rparr>
            | _ \<Rightarrow> Inl ValidationError))"

text \<open>
  An update document is cast and, with \<open>runValidators\<close>, validated path by path; only
  the paths it carries are set. A Number path set to the empty text becomes null, which
  \<open>required\<close> rejects for \<open>price\<close> and \<open>area.value\<close>. A nested object the body carries
  (\<open>area\<close>, \<open>location\<close>) replaces the stored one as a whole: the required paths under it
  are validated whether the body gives them or not, and what the body does not give is
  no longer set afterwards (no default is applied). \<open>createdAt\<close> is managed by the
  \<open>timestamps\<close> option of the schema and an update does not change it.
\<close>

definition area_carried :: "property_body \<Rightarrow> bool" where
  "area_carried b = (\<not> (b_area_value b = None \<and> b_area_unit b = None))"

definition location_carried :: "property_body \<Rightarrow> bool" where
  "location_carried b =
     (\<not> (b_address b = None \<and> b_city b = None \<and> b_state b = None \<and> b_pincode b = None \<and>
         b_coordinates_type b = None \<and> b_coordinates b = None))"

fun set_number :: "js_runtime \<Rightarrow> string option \<Rightarrow> jsnum option \<Rightarrow> jsnum option" where
  "set_number rt None old = old"
| "set_number rt (Some s) old = cast_value rt (Some s)"

fun set_path :: "'a option \<Rightarrow> 'a \<Rightarrow> 'a" where
  "set_path None old = old"
| "set_path (Some v) old = v"

fun carried_ok :: "(string \<Rightarrow> bool) \<Rightarrow> string option \<Rightarrow> bool" where
  "carried_ok ok None = True"
| "carried_ok ok (Some s) = ok s"

definition update_valid :: "js_runtime \<Rightarrow> property_body \<Rightarrow> bool" where
  "update_valid rt b =
     (carried_ok (\<lambda>s. trim s \<noteq> []) (b_title b) \<and>
      carried_ok (\<lambda>s. s \<noteq> []) (b_description b) \<and>
      carried_ok (\<lambda>s. s \<in> set propertyType_enum) (b_propertyType b) \<and>
      carried_ok (\<lambda>s. s \<in> set listingType_enum) (b_listingType b) \<and>
      carried_ok (\<lambda>s. s \<noteq> []) (b_price b) \<and>
      (if area_carried b
       then cast_value rt (b_area_value b) \<noteq> None \<and> enum_ok area_unit_enum (b_area_unit b)
       else True) \<and>
      min0_ok (cast_value rt (b_bedrooms b)) \<and>
      min0_ok (cast_value rt (b_bathrooms b)) \<and>
      min0_ok (cast_value rt (b_parking b)) \<and>
      enum_ok furnishing_enum (b_furnishing b) \<and>
      enum_ok facing_enum (b_facing b) \<and>
      (if location_carried b
       then required_string (b_address b) \<and> required_string (b_city b) \<and>
            required_string (b_state b) \<and> required_string (b_pincode b) \<and>
            enum_ok coordinates_type_enum (b_coordinates_type b) \<and>
            b_coordinates b \<noteq> None
       else True) \<and>
      amenities_ok (b_amenities b) \<and>
      carried_ok (\<lambda>s. s \<in> set status_enum) (b_status b))"

text \<open>The document after the update has been applied.\<close>

definition updated :: "js_runtime \<Rightarrow> property_body \<Rightarrow> property \<Rightarrow> property" where
  "updated rt b p =
     p\<lparr>title := set_path (map_option trim (b_title b)) (title p),
       description := set_path (b_description b) (description p),
       propertyType := set_path (b_propertyType b) (propertyType p),
       listingType := set_path (b_listingType b) (listingType p),
       price := set_path (cast_value rt (b_price b)) (price p),
       currency := set_path (b_currency b) (currency p),
       area_value :=
         (if area_carried b then set_path (cast_value rt (b_area_value b)) (area_value p)
          else area_value p),
       area_unit := (if area_carried b then b_area_unit b else area_unit p),
       bedrooms := set_number rt (b_bedrooms b) (bedrooms p),
       bathrooms := set_number rt (b_bathrooms b) (bathrooms p),
       parking := set_number rt (b_parking b) (parking p),
       furnishing := (case b_furnishing b of None \<Rightarrow> furnishing p | Some f \<Rightarrow> Some f),
       floor_no := set_number rt (b_floor b) (floor_no p),
       totalFloors := set_number rt (b_totalFloors b) (totalFloors p),
       age := set_number rt (b_age b) (age p),
       facing := (case b_facing b of None \<Rightarrow> facing p | Some f \<Rightarrow> Some f),
       location_address :=
         (if location_carried b then field_text (b_address b) else location_address p),
       location_city :=
         (if location_carried b then field_text (b_city b) else location_city p),
       location_state :=
         (if location_carried b then field_text (b_state b) else location_state p),
       location_pincode :=
         (if location_carried b then field_text (b_pincode b) else location_pincode p),
       coordinates_type :=
         (if location_carried b then b_coordinates_type b else coordinates_type p),
       coordinates :=
         (if location_carried b
          then (case b_coordinates b of None \<Rightarrow> [] | Some cs \<Rightarrow> map (ToNumber rt) cs)
          else coordinates p),
       amenities := set_path (b_amenities b) (amenities p),
       owner := set_path (b_owner b) (owner p),
       status := set_path (b_status b) (status p),
       featured := set_path (b_featured b) (featured p),
       views := set_number rt (b_views b) (views p),
       inquiries := set_path (b_inquiries b) (inquiries p)\<rparr>"

text \<open>The update is refused when the 2dsphere index does not accept the new
  \<open>location.coordinates\<close>.\<close>

definition apply_update :: "js_runtime \<Rightarrow> property_body \<Rightarrow> property \<Rightarrow> mongoose_error + property" where
  "apply_update rt b p =
     (if \<not> casts_ok rt b then Inl CastError
      else if \<not> update_valid rt b then Inl ValidationError
      else if location_carried b \<and>
              \<not> geo_ok rt (coordinates_type (updated rt b p)) (coordinates (updated rt b p))
      then Inl MongoServerError
      else Inr (updated rt b p))"

definition findById :: "object_id \<Rightarrow> property list \<Rightarrow> property option" where
  "findById i ps = find (\<lambda>p. p_id p = i) ps"

fun replace_first :: "('a \<Rightarrow> bool) \<Rightarrow> 'a \<Rightarrow> 'a list \<Rightarrow> 'a list" where
  "replace_first P y [] = []"
| "replace_first P y (x # xs) = (if P x then y # xs else x # replace_first P y xs)"

fun delete_first :: "('a \<Rightarrow> bool) \<Rightarrow> 'a list \<Rightarrow> 'a list" where
  "delete_first P [] = []"
| "delete_first P (x # xs) = (if P x then xs else x # delete_first P xs)"

text \<open>\<open>Property.findByIdAndUpdate(id, update, { new: true, runValidators: true })\<close>: the
  updated document (null when there is none with this id) and the collection after it.\<close>

definition findByIdAndUpdate ::
  "js_runtime \<Rightarrow> object_id \<Rightarrow> property_body \<Rightarrow> property list
     \<Rightarrow> mongoose_error + (property option \<times> property list)" where
  "findByIdAndUpdate rt i b ps =
     (case findById i ps of
        None \<Rightarrow> Inr (None, ps)
      | Some p \<Rightarrow>
          (case apply_update rt b p of
             Inl e \<Rightarrow> Inl e
           | Inr p' \<Rightarrow> Inr (Some p', replace_first (\<lambda>x. p_id x = i) p' ps)))"

section \<open>Property routes\<close>

text \<open>
  Every handler takes the store before the request and returns the response together
  with the store after it. The \<open>protect\<close> middleware has run: the actor is authenticated.
\<close>

text \<open>\<open>POST /properties\<close>\<close>

definition post_property ::
  "js_runtime \<Rightarrow> object_id \<Rightarrow> nat \<Rightarrow> db \<Rightarrow> actor \<Rightarrow> property_body \<Rightarrow> response \<times> db" where
  "post_property rt new_id now d a body =
     (let errors = propertyValidation body; req_body = sanitized body in
      if errors \<noteq> [] then ((400, Errors errors), d)
      else (case Property_create rt new_id now (req_body\<lparr>b_owner := Some (a_id a)\<rparr>) of
              Inl e \<Rightarrow> ((500, Failure ''Error creating property''), d)
            | Inr property \<Rightarrow>
                ((201, Property_data property),
                 d\<lparr>properties := properties d @ [property]\<rparr>)))"

text \<open>\<open>PUT /properties/:id\<close>\<close>

definition put_property ::
  "js_runtime \<Rightarrow> db \<Rightarrow> actor \<Rightarrow> object_id \<Rightarrow> property_body \<Rightarrow> response \<times> db" where
  "put_property rt d a i body =
     (let errors = propertyValidation body; req_body = sanitized body in
      if errors \<noteq> [] then ((400, Errors errors), d)
      else (case findById i (properties d) of
              None \<Rightarrow> ((404, Failure ''Property not found''), d)
            | Some property \<Rightarrow>
                if owner property \<noteq> a_id a \<and> a_role a \<noteq> ''admin''
                then ((403, Failure ''Not authorized to update this property''), d)
                else (case findByIdAndUpdate rt i req_body (properties d) of
                        Inl e \<Rightarrow> ((500, Failure ''Error updating property''), d)
                      | Inr (None, ps) \<Rightarrow> ((200, Null_data), d\<lparr>properties := ps\<rparr>)
                      | Inr (Some p', ps) \<Rightarrow>
                          ((200, Property_data p'), d\<lparr>properties := ps\<rparr>))))"

text \<open>\<open>DELETE /properties/:id\<close>\<close>

definition delete_property :: "db \<Rightarrow> actor \<Rightarrow> object_id \<Rightarrow> response \<times> db" where
  "delete_property d a i =
     (case findById i (properties d) of
        None \<Rightarrow> ((404, Failure ''Property not found''), d)
      | Some property \<Rightarrow>
          if owner property \<noteq> a_id a \<and> a_role a \<noteq> ''admin''
          then ((403, Failure ''Not authorized to delete this property''), d)
          else ((200, Success_message ''Property deleted successfully''),
                d\<lparr>properties := delete_first (\<lambda>x. p_id x = i) (properties d)\<rparr>))"

subsection \<open>The listing filter\<close>

text \<open>
  The recognised parameters of \<open>GET /properties\<close>, each the text of \<open>req.query\<close> or
  undefined. (A parameter repeated or written with brackets would arrive as an array or an
  object; such requests are outside the model.)
\<close>

record properties_query =
  q_propertyType :: "string option"
  q_listingType :: "string option"
  q_minPrice :: "string option"
  q_maxPrice :: "string option"
  q_city :: "string option"
  q_state :: "string option"
  q_bedrooms :: "string option"
  q_bathrooms :: "string option"
  q_amenities :: "string option"
  q_page :: "string option"
  q_limit :: "string option"
  q_sort :: "string option"

text \<open>The filter object handed to \<open>find\<close> and \<open>countDocuments\<close>; a key is \<open>None\<close> when it was
  never assigned.\<close>

record price_range =
  gte :: "jsnum option"
  lte :: "jsnum option"

record mongo_query =
  mq_propertyType :: "string option"
  mq_listingType :: "string option"
  mq_city :: "(string \<Rightarrow> bool) option"
  mq_state :: "(string \<Rightarrow> bool) option"
  mq_bedrooms :: "string option"
  mq_bathrooms :: "string option"
  mq_amenities_in :: "string list option"
  mq_price :: "price_range option"

text \<open>\<open>if (x) query.x = x\<close>\<close>

definition assigned :: "string option \<Rightarrow> string option" where
  "assigned x = (if truthy x then x else None)"

text \<open>\<open>if (x) query[k] = new RegExp(x, 'i')\<close>: the outer \<open>None\<close> is the SyntaxError.\<close>

fun assigned_regexp :: "js_runtime \<Rightarrow> string option \<Rightarrow> (string \<Rightarrow> bool) option option" where
  "assigned_regexp rt None = Some None"
| "assigned_regexp rt (Some s) =
     (if s = [] then Some None
      else (case RegExp_i rt s of None \<Rightarrow> None | Some m \<Rightarrow> Some (Some m)))"

text \<open>\<open>if (x) query.price.k = Number(x)\<close>\<close>

fun assigned_number :: "js_runtime \<Rightarrow> string option \<Rightarrow> jsnum option" where
  "assigned_number rt None = None"
| "assigned_number rt (Some s) = (if s = [] then None else Some (ToNumber rt s))"

definition build_query :: "js_runtime \<Rightarrow> properties_query \<Rightarrow> mongo_query option" where
  "build_query rt q =
     (case (assigned_regexp rt (q_city q), assigned_regexp rt (q_state q)) of
        (Some city_re, Some state_re) \<Rightarrow>
          Some \<lparr>mq_propertyType = assigned (q_propertyType q),
                mq_listingType = assigned (q_listingType q),
                mq_city = city_re,
                mq_state = state_re,
                mq_bedrooms = assigned (q_bedrooms q),
                mq_bathrooms = assigned (q_bathrooms q),
                mq_amenities_in = map_option split_comma (assigned (q_amenities q)),
                mq_price =
                  (if truthy (q_minPrice q) \<or> truthy (q_maxPrice q)
                   then Some \<lparr>gte = assigned_number rt (q_minPrice q),
                              lte = assigned_number rt (q_maxPrice q)\<rparr>
                   else None)\<rparr>
      | _ \<Rightarrow> None)"

text \<open>
  The cast of the filter against the schema: the values of the Number paths
  (\<open>bedrooms\<close>, \<open>bathrooms\<close>, the two price bounds) must not be NaN, or the find is
  rejected with a CastError.
\<close>

fun number_text_ok :: "js_runtime \<Rightarrow> string option \<Rightarrow> bool" where
  "number_text_ok rt None = True"
| "number_text_ok rt (Some s) = (ToNumber rt s \<noteq> NaN)"

fun bound_ok :: "jsnum option \<Rightarrow> bool" where
  "bound_ok None = True"
| "bound_ok (Some n) = (n \<noteq> NaN)"

fun price_ok :: "price_range option \<Rightarrow> bool" where
  "price_ok None = True"
| "price_ok (Some r) = (bound_ok (gte r) \<and> bound_ok (lte r))"

definition castable :: "js_runtime \<Rightarrow> mongo_query \<Rightarrow> bool" where
  "castable rt mq =
     (number_text_ok rt (mq_bedrooms mq) \<and> number_text_ok rt (mq_bathrooms mq) \<and>
      price_ok (mq_price mq))"

text \<open>Whether a document satisfies the filter: every assigned key is a condition, and
  the conditions are conjoined.\<close>

fun eq_cond :: "string option \<Rightarrow> string \<Rightarrow> bool" where
  "eq_cond None v = True"
| "eq_cond (Some x) v = (v = x)"

fun regexp_cond :: "(string \<Rightarrow> bool) option \<Rightarrow> string \<Rightarrow> bool" where
  "regexp_cond None v = True"
| "regexp_cond (Some m) v = m v"

fun number_cond :: "js_runtime \<Rightarrow> string option \<Rightarrow> jsnum option \<Rightarrow> bool" where
  "number_cond rt None v = True"
| "number_cond rt (Some x) v = (v = Some (ToNumber rt x))"

fun in_cond :: "string list option \<Rightarrow> string list \<Rightarrow> bool" where
  "in_cond None vs = True"
| "in_cond (Some xs) vs = list_ex (\<lambda>v. v \<in> set xs) vs"

fun gte_cond :: "jsnum option \<Rightarrow> jsnum \<Rightarrow> bool" where
  "gte_cond None v = True"
| "gte_cond (Some n) v = js_le n v"

fun lte_cond :: "jsnum option \<Rightarrow> jsnum \<Rightarrow> bool" where
  "lte_cond None v = True"
| "lte_cond (Some n) v = js_le v n"

fun price_cond :: "price_range option \<Rightarrow> jsnum \<Rightarrow> bool" where
  "price_cond None v = True"
| "price_cond (Some r) v = (gte_cond (gte r) v \<and> lte_cond (lte r) v)"

definition matches :: "js_runtime \<Rightarrow> mongo_query \<Rightarrow> property \<Rightarrow> bool" where
  "matches rt mq p =
     (eq_cond (mq_propertyType mq) (propertyType p) \<and>
      eq_cond (mq_listingType mq) (listingType p) \<and>
      regexp_cond (mq_city mq) (location_city p) \<and>
      regexp_cond (mq_state mq) (location_state p) \<and>
      number_cond rt (mq_bedrooms mq) (bedrooms p) \<and>
      number_cond rt (mq_bathrooms mq) (bathrooms p) \<and>
      in_cond (mq_amenities_in mq) (amenities p) \<and>
      price_cond (mq_price mq) (price p))"

text \<open>The documents \<open>Property.find(query)\<close> selects and \<open>countDocuments(query)\<close> counts,
  or \<open>None\<close> when the request ends in the catch block before that.\<close>

definition matching :: "js_runtime \<Rightarrow> db \<Rightarrow> properties_query \<Rightarrow> property list option" where
  "matching rt d q =
     (case build_query rt q of
        None \<Rightarrow> None
      | Some query \<Rightarrow>
          if castable rt query then Some (filter (matches rt query) (properties d))
          else None)"

text \<open>
  \<open>GET /properties\<close>. The page of documents (\<open>data\<close>) is not part of the modelled
  response; the store is asked whether it runs the find with \<open>limit(limit * 1)\<close> and
  \<open>skip((page - 1) * limit)\<close>.
\<close>

definition get_properties :: "js_runtime \<Rightarrow> db \<Rightarrow> properties_query \<Rightarrow> response" where
  "get_properties rt d q =
     (let page = or_default (q_page q) (Fin 1); limit = or_default (q_limit q) (Fin 10) in
      case matching rt d q of
        None \<Rightarrow> (500, Failure ''Error fetching properties'')
      | Some found \<Rightarrow>
          if \<not> cursor_ok rt (js_times (to_number rt limit) (Fin 1))
                   (js_times (js_minus (to_number rt page) (Fin 1)) (to_number rt limit))
          then (500, Failure ''Error fetching properties'')
          else (let total = length found in
                (200, Page_data
                   \<lparr>total = total,
                    page = json_number (js_times (to_number rt page) (Fin 1)),
                    pages = json_number
                      (Math_ceil (js_divide (Fin (of_nat total)) (to_number rt limit)))\<rparr>)))"

section \<open>Admin routes\<close>

text \<open>The admin router runs \<open>protect\<close> and \<open>authorize('admin')\<close> before every handler:
  the handlers below are reached by administrators only.\<close>

record users_query =
  uq_page :: "string option"
  uq_limit :: "string option"
  uq_role :: "string option"

text \<open>\<open>GET /admin/users\<close>, with \<open>query = role ? { role } : {}\<close>.\<close>

definition get_admin_users :: "js_runtime \<Rightarrow> db \<Rightarrow> users_query \<Rightarrow> response" where
  "get_admin_users rt d q =
     (let page = or_default (uq_page q) (Fin 1); limit = or_default (uq_limit q) (Fin 10);
          query = assigned (uq_role q)
      in if \<not> cursor_ok rt (js_times (to_number rt limit) (Fin 1))
                  (js_times (js_minus (to_number rt page) (Fin 1)) (to_number rt limit))
         then (500, Failure ''Error fetching users'')
         else (let total = length (filter (\<lambda>u. eq_cond query (role u)) (users d)) in
               (200, Page_data
                  \<lparr>total = total,
                   page = json_number (js_times (to_number rt page) (Fin 1)),
                   pages = json_number
                     (Math_ceil (js_divide (Fin (of_nat total)) (to_number rt limit)))\<rparr>)))"

record pending_query =
  pq_page :: "string option"
  pq_limit :: "string option"

text \<open>\<open>GET /admin/properties/pending\<close>\<close>

definition get_admin_pending :: "js_runtime \<Rightarrow> db \<Rightarrow> pending_query \<Rightarrow> response" where
  "get_admin_pending rt d q =
     (let page = or_default (pq_page q) (Fin 1); limit = or_default (pq_limit q) (Fin 10)
      in if \<not> cursor_ok rt (js_times (to_number rt limit) (Fin 1))
                  (js_times (js_minus (to_number rt page) (Fin 1)) (to_number rt limit))
         then (500, Failure ''Error fetching pending properties'')
         else (let total = length (filter (\<lambda>p. status p = ''pending'') (properties d)) in
               (200, Page_data
                  \<lparr>total = total,
                   page = json_number (js_times (to_number rt page) (Fin 1)),
                   pages = json_number
                     (Math_ceil (js_divide (Fin (of_nat total)) (to_number rt limit)))\<rparr>)))"

subsection \<open>Aggregation stages\<close>

text \<open>\<open>{ $unwind: '$inquiries' }\<close>: one output document per element of the array, in
  order; a property without inquiries gives none.\<close>

definition unwind_inquiries :: "property list \<Rightarrow> (property \<times> inquiry) list" where
  "unwind_inquiries ps = concat (map (\<lambda>p. map (\<lambda>i. (p, i)) (inquiries p)) ps)"

text \<open>\<open>{ $group: { _id: null, count: { $sum: 1 } } }\<close>: a single group holding the number
  of input documents, and no group at all when there is no input.\<close>

definition group_count :: "'a list \<Rightarrow> nat list" where
  "group_count xs = (if xs = [] then [] else [length xs])"

text \<open>\<open>totalInquiries[0]?.count || 0\<close>\<close>

fun first_count_or_0 :: "nat list \<Rightarrow> nat" where
  "first_count_or_0 [] = 0"
| "first_count_or_0 (c # cs) = (if c = 0 then 0 else c)"

text \<open>\<open>GET /admin/dashboard\<close>: the six results of \<open>Promise.all\<close>.\<close>

definition get_admin_dashboard :: "db \<Rightarrow> response" where
  "get_admin_dashboard d =
     (200, Dashboard_data
        \<lparr>totalUsers = length (users d),
         totalProperties = length (properties d),
         pendingProperties = length (filter (\<lambda>p. status p = ''pending'') (properties d)),
         activeProperties = length (filter (\<lambda>p. status p = ''active'') (properties d)),
         totalAgents = length (filter (\<lambda>u. role u = ''agent'') (users d)),
         totalInquiries = first_count_or_0 (group_count (unwind_inquiries (properties d)))\<rparr>)"

text \<open>
  The \<open>recentInquiries\<close> aggregate of \<open>GET /admin/activities\<close>. \<open>$sort\<close> by
  \<open>inquiries.createdAt\<close> descending is modelled as a stable sort: among equal timestamps
  the order of the unwound documents is kept (the store promises no order there).
\<close>

record recent_inquiry =
  ri_id :: object_id
  ri_title :: string
  ri_message :: "string option"
  ri_createdAt :: nat
  ri_user_name :: string
  ri_user_email :: string

definition sort_createdAt_desc :: "(property \<times> inquiry) list \<Rightarrow> (property \<times> inquiry) list" where
  "sort_createdAt_desc xs = sort_key (\<lambda>x. - int (i_createdAt (snd x))) xs"

text \<open>\<open>$lookup\<close> from users on \<open>inquiries.user = _id\<close>, as the array \<open>user\<close>; an
  inquiry without \<open>user\<close> matches no user.\<close>

definition lookup_user ::
  "user list \<Rightarrow> (property \<times> inquiry) list \<Rightarrow> (property \<times> inquiry \<times> user list) list" where
  "lookup_user us xs =
     map (\<lambda>x. (fst x, snd x, filter (\<lambda>u. Some (u_id u) = i_user (snd x)) us)) xs"

text \<open>\<open>{ $unwind: '$user' }\<close>: a document whose \<open>user\<close> array is empty is dropped.\<close>

definition unwind_user ::
  "(property \<times> inquiry \<times> user list) list \<Rightarrow> (property \<times> inquiry \<times> user) list" where
  "unwind_user xs = concat (map (\<lambda>x. map (\<lambda>u. (fst x, fst (snd x), u)) (snd (snd x))) xs)"

definition project :: "property \<times> inquiry \<times> user \<Rightarrow> recent_inquiry" where
  "project x =
     \<lparr>ri_id = p_id (fst x),
      ri_title = title (fst x),
      ri_message = message (fst (snd x)),
      ri_createdAt = i_createdAt (fst (snd x)),
      ri_user_name = name (snd (snd x)),
      ri_user_email = email (snd (snd x))\<rparr>"

text \<open>The stages \<open>$unwind\<close>, \<open>$sort\<close> and \<open>{ $limit: 5 }\<close>, which precede the lookup.\<close>

definition recent5 :: "db \<Rightarrow> (property \<times> inquiry) list" where
  "recent5 d = take 5 (sort_createdAt_desc (unwind_inquiries (properties d)))"

definition recentInquiries :: "db \<Rightarrow> recent_inquiry list" where
  "recentInquiries d = map project (unwind_user (lookup_user (users d) (recent5 d)))"

section \<open>Favourites (user routes)\<close>





section \<open>A runtime and a store for the worked examples\<close>

text \<open>
  The examples below are evaluated with the following stand-ins for the parameters. They
  agree with the language, the driver and the store on the inputs the examples use:
  \<open>example_ToNumber\<close> on the empty text and on texts of decimal digits,
  \<open>example_RegExp_i\<close> on patterns made of letters only (a case-insensitive search for the
  pattern as a substring), \<open>example_ObjectId_cast\<close> on texts of 24 hexadecimal digits in
  either case, and \<open>example_ObjectId_text\<close> everywhere (24 lower-case hexadecimal digits).
  The example store runs a find whose limit and skip are numbers that are not negative,
  and its index accepts a GeoJSON point with a longitude and a latitude in range.
\<close>

definition digit_value :: "char \<Rightarrow> int" where
  "digit_value c = int (length (takeWhile (\<lambda>d. d \<noteq> c) ''0123456789''))"

definition example_ToNumber :: "string \<Rightarrow> jsnum" where
  "example_ToNumber s =
     (if list_all is_digit s
      then round_double (of_int (foldl (\<lambda>n c. 10 * n + digit_value c) 0 s))
      else NaN)"

definition lower :: "char \<Rightarrow> char" where
  "lower c =
     (case map_of (zip ''ABCDEFGHIJKLMNOPQRSTUVWXYZ'' ''abcdefghijklmnopqrstuvwxyz'') c of
        None \<Rightarrow> c
      | Some l \<Rightarrow> l)"

definition is_letter :: "char \<Rightarrow> bool" where
  "is_letter c = (c \<in> set ''ABCDEFGHIJKLMNOPQRSTUVWXYZabcdefghijklmnopqrstuvwxyz'')"

fun contains :: "string \<Rightarrow> string \<Rightarrow> bool" where
  "contains pat [] = (pat = [])"
| "contains pat (c # cs) = (take (length pat) (c # cs) = pat \<or> contains pat cs)"

definition example_RegExp_i :: "string \<Rightarrow> (string \<Rightarrow> bool) option" where
  "example_RegExp_i pat =
     (if list_all is_letter pat
      then Some (\<lambda>v. contains (map lower pat) (map lower v))
      else None)"

definition example_geo_ok :: "string option \<Rightarrow> jsnum list \<Rightarrow> bool" where
  "example_geo_ok t cs =
     (t = Some ''Point'' \<and>
      (case cs of
         [lon, lat] \<Rightarrow>
           js_le (Fin (- 180)) lon \<and> js_le lon (Fin 180) \<and>
           js_le (Fin (- 90)) lat \<and> js_le lat (Fin 90)
       | _ \<Rightarrow> False))"

fun hex_text :: "nat \<Rightarrow> nat \<Rightarrow> string" where
  "hex_text 0 n = []"
| "hex_text (Suc k) n = hex_text k (n div 16) @ [''0123456789abcdef'' ! (n mod 16)]"

definition example_ObjectId_text :: "object_id \<Rightarrow> string" where
  "example_ObjectId_text i = hex_text 24 i"

definition is_hex :: "char \<Rightarrow> bool" where
  "is_hex c = (lower c \<in> set ''0123456789abcdef'')"

definition hex_value :: "char \<Rightarrow> nat" where
  "hex_value c = length (takeWhile (\<lambda>d. d \<noteq> lower c) ''0123456789abcdef'')"

definition example_ObjectId_cast :: "string \<Rightarrow> object_id option" where
  "example_ObjectId_cast s =
     (if length s = 24 \<and> list_all is_hex s
      then Some (foldl (\<lambda>n c. 16 * n + hex_value c) 0 s)
      else None)"

definition example_runtime :: js_runtime where
  "example_runtime =
     \<lparr>ToNumber = example_ToNumber,
      RegExp_i = example_RegExp_i,
      cursor_ok = (\<lambda>l s. js_le (Fin 0) l \<and> js_le (Fin 0) s),
      geo_ok = example_geo_ok,
      ObjectId_cast = example_ObjectId_cast,
      ObjectId_text = example_ObjectId_text\<rparr>"

definition alice :: user where
  "alice = \<lparr>u_id = 1, name = ''Alice'', email = ''alice@example.com'', role = ''user'',
            favorites = [10]\<rparr>"

definition bob :: user where
  "bob = \<lparr>u_id = 2, name = ''Bob'', email = ''bob@example.com'', role = ''agent'',
          favorites = []\<rparr>"

definition carol :: user where
  "carol = \<lparr>u_id = 3, name = ''Carol'', email = ''carol@example.com'', role = ''admin'',
            favorites = []\<rparr>"


definition as_actor :: "user \<Rightarrow> actor" where
  "as_actor u = \<lparr>a_id = u_id u, a_role = role u\<rparr>"

definition flat :: property where
  "flat =
     \<lparr>p_id = 10, title = ''Flat'', description = ''Two rooms'', propertyType = ''Apartment'',
      listingType = ''Sale'', price = Fin 5000000, currency = ''INR'',
      area_value = Fin 900, area_unit = Some ''sq ft'',
      bedrooms = Some (Fin 2), bathrooms = Some (Fin 1), parking = None,
      furnishing = None, floor_no = None, totalFloors = None, age = None, facing = None,
      location_address = ''1 Main Road'', location_city = ''Pune'',
      location_state = ''Maharashtra'', location_pincode = ''411001'',
      coordinates_type = Some ''Point'', coordinates = [Fin 74, Fin 19],
      amenities = [''Lift'', ''Gym''], owner = 1, status = ''active'', featured = False,
      views = Some (Fin 0), inquiries = [], createdAt = 100\<rparr>"

definition villa :: property where
  "villa =
     \<lparr>p_id = 11, title = ''Villa'', description = ''Sea view'', propertyType = ''Villa'',
      listingType = ''Rent'', price = Fin 80000, currency = ''INR'',
      area_value = Fin 2500, area_unit = Some ''sq ft'',
      bedrooms = Some (Fin 4), bathrooms = Some (Fin 3), parking = None,
      furnishing = None, floor_no = None, totalFloors = None, age = None, facing = None,
      location_address = ''7 Beach Lane'', location_city = ''Panaji'',
      location_state = ''Goa'', location_pincode = ''403001'',
      coordinates_type = Some ''Point'', coordinates = [Fin 74, Fin 15],
      amenities = [''Garden''], owner = 2, status = ''pending'', featured = False,
      views = Some (Fin 0), inquiries = [], createdAt = 200\<rparr>"

definition empty_db :: db where
  "empty_db = \<lparr>properties = [], users = []\<rparr>"

definition example_db :: db where
  "example_db = \<lparr>properties = [flat, villa], users = [alice, bob, carol]\<rparr>"


definition empty_body :: property_body where
  "empty_body =
     \<lparr>b_title = None, b_description = None, b_propertyType = None, b_listingType = None,
      b_price = None, b_currency = None, b_area_value = None, b_area_unit = None,
      b_bedrooms = None, b_bathrooms = None, b_parking = None, b_furnishing = None,
      b_floor = None, b_totalFloors = None, b_age = None, b_facing = None,
      b_address = None, b_city = None, b_state = None, b_pincode = None,
      b_coordinates_type = None, b_coordinates = None,
      b_amenities = None, b_owner = None, b_status = None, b_featured = None,
      b_views = None, b_inquiries = None, b_createdAt = None\<rparr>"

text \<open>A complete body: the ten validated fields and
  \<open>location.coordinates = { type: 'Point', coordinates: [79, 21] }\<close>.\<close>

definition plot_body :: property_body where
  "plot_body =
     empty_body
       \<lparr>b_title := Some ''Plot'', b_description := Some ''Corner plot'',
        b_propertyType := Some ''Plot'', b_listingType := Some ''Sale'',
        b_price := Some ''5000000'', b_area_value := Some ''1200'',
        b_address := Some ''4 Ring Road'', b_city := Some ''Nagpur'',
        b_state := Some ''Maharashtra'', b_pincode := Some ''440001'',
        b_coordinates_type := Some ''Point'', b_coordinates := Some [''79'', ''21'']\<rparr>"

definition no_filter :: properties_query where
  "no_filter =
     \<lparr>q_propertyType = None, q_listingType = None, q_minPrice = None, q_maxPrice = None,
      q_city = None, q_state = None, q_bedrooms = None, q_bathrooms = None,
      q_amenities = None, q_page = None, q_limit = None, q_sort = None\<rparr>"


text \<open>The same two properties with inquiries; the second inquiry of the flat was sent by
  a user (id 99) whose document is no longer in the users collection.\<close>

definition flat_asked :: property where
  "flat_asked =
     flat\<lparr>inquiries :=
            [\<lparr>i_user = Some 2, message = Some ''Is it available?'', i_createdAt = 110\<rparr>,
             \<lparr>i_user = Some 99, message = Some ''Best price?'', i_createdAt = 320\<rparr>]\<rparr>"

definition villa_asked :: property where
  "villa_asked =
     villa\<lparr>inquiries :=
             [\<lparr>i_user = Some 1, message = Some ''Pets allowed?'', i_createdAt = 210\<rparr>,
              \<lparr>i_user = Some 3, message = Some ''Visit on Monday?'', i_createdAt = 220\<rparr>,
              \<lparr>i_user = Some 2, message = Some ''Parking?'', i_createdAt = 230\<rparr>,
              \<lparr>i_user = Some 1, message = Some ''Deposit?'', i_createdAt = 240\<rparr>]\<rparr>"

definition inquiry_db :: db where
  "inquiry_db = \<lparr>properties = [flat_asked, villa_asked], users = [alice, bob, carol]\<rparr>"

section \<open>Notions of the specification\<close>

text \<open>The authorization predicate in the words of the specification:
  \<open>canMutate(actor, property) = actor.id == property.owner.id OR actor.role == admin\<close>.\<close>

definition canMutate :: "actor \<Rightarrow> property \<Rightarrow> bool" where
  "canMutate a p = (a_id a = owner p \<or> a_role a = ''admin'')"

text \<open>Whether the user reference of an unwound inquiry resolves in the users collection.\<close>

definition resolves :: "user list \<Rightarrow> property \<times> inquiry \<Rightarrow> bool" where
  "resolves us x = list_ex (\<lambda>u. Some (u_id u) = i_user (snd x)) us"

text \<open>The filter parameters of the listing, and a request with one of them removed.\<close>

datatype filter_param =
  PropertyType | ListingType | City | State | Bedrooms | Bathrooms | Amenities
  | MinPrice | MaxPrice

fun omit :: "filter_param \<Rightarrow> properties_query \<Rightarrow> properties_query" where
  "omit PropertyType q = q\<lparr>q_propertyType := None\<rparr>"
| "omit ListingType q = q\<lparr>q_listingType := None\<rparr>"
| "omit City q = q\<lparr>q_city := None\<rparr>"
| "omit State q = q\<lparr>q_state := None\<rparr>"
| "omit Bedrooms q = q\<lparr>q_bedrooms := None\<rparr>"
| "omit Bathrooms q = q\<lparr>q_bathrooms := None\<rparr>"
| "omit Amenities q = q\<lparr>q_amenities := None\<rparr>"
| "omit MinPrice q = q\<lparr>q_minPrice := None\<rparr>"
| "omit MaxPrice q = q\<lparr>q_maxPrice := None\<rparr>"


section \<open>Verified properties\<close>

subsection \<open>Dashboard statistics\<close>

lemma first_count_group: "first_count_or_0 (group_count xs) = length xs"
  by (cases xs) (simp_all add: group_count_def)

lemma length_unwind_inquiries:
  "length (unwind_inquiries ps) = (\<Sum>p\<leftarrow>ps. length (inquiries p))"
  by (induction ps) (simp_all add: unwind_inquiries_def)

lemma set_unwind_inquiries:
  "set (unwind_inquiries ps) = {(p, i). p \<in> set ps \<and> i \<in> set (inquiries p)}"
  by (auto simp: unwind_inquiries_def)

text \<open>
  Claim C6. The dashboard answers 200, and its \<open>totalInquiries\<close> is the sum, over all
  properties in the store at the time of the call, of the length of the property's
  inquiries list; it is 0 when no property has an inquiry.
\<close>

theorem dashboard_totalInquiries:
  "\<exists>dd. get_admin_dashboard d = (200, Dashboard_data dd) \<and>
        totalInquiries dd = (\<Sum>p\<leftarrow>properties d. length (inquiries p)) \<and>
        ((\<forall>p \<in> set (properties d). inquiries p = []) \<longrightarrow> totalInquiries dd = 0)"
proof -
  let ?n = "\<Sum>p\<leftarrow>properties d. length (inquiries p)"
  have count: "first_count_or_0 (group_count (unwind_inquiries (properties d))) = ?n"
    by (simp only: first_count_group length_unwind_inquiries)
  have zero: "(\<forall>p \<in> set (properties d). inquiries p = []) \<Longrightarrow> ?n = 0"
    by (induction "properties d") simp_all
  show ?thesis
    unfolding get_admin_dashboard_def using count zero by simp
qed

theorem dashboard_totalInquiries_witness:
  "(\<exists>dd. get_admin_dashboard example_db = (200, Dashboard_data dd) \<and> totalInquiries dd = 0) \<and>
   (\<exists>dd. get_admin_dashboard inquiry_db = (200, Dashboard_data dd) \<and> totalInquiries dd = 6)"
proof -
  have none: "\<forall>p \<in> set (properties example_db). inquiries p = []"
    by (simp add: example_db_def flat_def villa_def)
  have six: "(\<Sum>p\<leftarrow>properties inquiry_db. length (inquiries p)) = 6"
    by (simp add: inquiry_db_def flat_asked_def villa_asked_def)
  from dashboard_totalInquiries [of example_db] none
    dashboard_totalInquiries [of inquiry_db] six
  show ?thesis by auto
qed

subsection \<open>The recent-inquiries feed\<close>

lemma sorted_desc:
  "sorted_wrt (\<lambda>x y. i_createdAt (snd y) \<le> i_createdAt (snd x)) (sort_createdAt_desc xs)"
proof -
  have "sorted (map (\<lambda>x. - int (i_createdAt (snd x))) (sort_createdAt_desc xs))"
    unfolding sort_createdAt_desc_def by (rule sorted_sort_key)
  then show ?thesis
    by (simp add: sorted_map)
qed

lemma mset_sort_createdAt_desc: "mset (sort_createdAt_desc xs) = mset xs"
  by (simp add: sort_createdAt_desc_def)

lemma length_lookup_one:
  assumes "distinct (map u_id us)"
  shows "length (filter (\<lambda>u. Some (u_id u) = k) us) =
         (if list_ex (\<lambda>u. Some (u_id u) = k) us then 1 else 0)"
  using assms by (induction us) (auto simp: list_ex_iff image_iff)

lemma length_join:
  assumes "distinct (map u_id us)"
  shows "length (unwind_user (lookup_user us xs)) = length (filter (resolves us) xs)"
  using length_lookup_one [OF assms]
  by (induction xs) (simp_all add: unwind_user_def lookup_user_def resolves_def)

lemma join_resolved:
  assumes "y \<in> set (unwind_user (lookup_user us xs))"
  shows "\<exists>x \<in> set xs. \<exists>u \<in> set us. Some (u_id u) = i_user (snd x) \<and> y = (fst x, snd x, u)"
  using assms by (auto simp: unwind_user_def lookup_user_def)

lemma recent5_split:
  "\<exists>rest. mset (recent5 d @ rest) = mset (unwind_inquiries (properties d)) \<and>
          sorted_wrt (\<lambda>x y. i_createdAt (snd y) \<le> i_createdAt (snd x)) (recent5 d @ rest)"
proof -
  let ?s = "sort_createdAt_desc (unwind_inquiries (properties d))"
  have "recent5 d @ drop 5 ?s = ?s"
    by (simp add: recent5_def)
  then show ?thesis
    using sorted_desc [of "unwind_inquiries (properties d)"]
      mset_sort_createdAt_desc [of "unwind_inquiries (properties d)"]
    by metis
qed

lemma length_recent5:
  "length (recent5 d) = min 5 (\<Sum>p\<leftarrow>properties d. length (inquiries p))"
  by (simp add: recent5_def sort_createdAt_desc_def length_unwind_inquiries)

lemma fewer_than_five:
  "distinct (map u_id (users inquiry_db)) \<and>
   (\<Sum>p\<leftarrow>properties inquiry_db. length (inquiries p)) = 6 \<and>
   length (recentInquiries inquiry_db) = 4"
  by code_simp

text \<open>
  Claim C10. The unwound documents are exactly the inquiries of the properties of the
  store, each as often as it occurs there. The five inquiries of \<open>recent5\<close> are chosen
  among them by timestamp alone, before the lookup: each is an inquiry of a property of
  the store, there are five of them (all, when the store holds fewer), in descending
  order of \<open>createdAt\<close>, and no inquiry of the store that is left out is more recent
  than one of them. Every entry of \<open>recentInquiries\<close> is one of these five joined to a
  user of the users collection with the inquiry's user id. With unique user ids the feed
  has exactly as many entries as there are inquiries among the five whose user resolves,
  so an unresolved one is dropped and not replaced; and there is a store with at least
  five inquiries whose feed has fewer than five entries.
\<close>

theorem recentInquiries_resolved_only:
  "set (unwind_inquiries (properties d)) =
     {(p, i). p \<in> set (properties d) \<and> i \<in> set (inquiries p)} \<and>
   length (unwind_inquiries (properties d)) = (\<Sum>p\<leftarrow>properties d. length (inquiries p)) \<and>
   mset (recent5 d) \<subseteq># mset (unwind_inquiries (properties d)) \<and>
   (\<forall>x \<in> set (recent5 d). fst x \<in> set (properties d) \<and> snd x \<in> set (inquiries (fst x))) \<and>
   length (recent5 d) = min 5 (\<Sum>p\<leftarrow>properties d. length (inquiries p)) \<and>
   sorted_wrt (\<lambda>x y. i_createdAt (snd y) \<le> i_createdAt (snd x)) (recent5 d) \<and>
   (\<forall>y \<in># mset (unwind_inquiries (properties d)) - mset (recent5 d).
      \<forall>x \<in> set (recent5 d). i_createdAt (snd y) \<le> i_createdAt (snd x)) \<and>
   (\<forall>p \<in> set (properties d). \<forall>i \<in> set (inquiries p).
      (p, i) \<in> set (recent5 d) \<or>
      (\<forall>x \<in> set (recent5 d). i_createdAt i \<le> i_createdAt (snd x))) \<and>
   (\<forall>r \<in> set (recentInquiries d).
      \<exists>x \<in> set (recent5 d). \<exists>u \<in> set (users d).
        Some (u_id u) = i_user (snd x) \<and> r = project (fst x, snd x, u)) \<and>
   (distinct (map u_id (users d)) \<longrightarrow>
      length (recentInquiries d) = length (filter (resolves (users d)) (recent5 d)) \<and>
      length (recentInquiries d) \<le> 5) \<and>
   (\<exists>d'. distinct (map u_id (users d')) \<and>
         5 \<le> (\<Sum>p\<leftarrow>properties d'. length (inquiries p)) \<and>
         length (recentInquiries d') < 5)"
proof -
  let ?all = "unwind_inquiries (properties d)"
  let ?desc = "\<lambda>x y. i_createdAt (snd y) \<le> i_createdAt (snd x)"
  obtain rest where perm: "mset (recent5 d @ rest) = mset ?all"
    and srt: "sorted_wrt ?desc (recent5 d @ rest)"
    using recent5_split by blast
  from perm have sub: "mset (recent5 d) \<subseteq># mset ?all"
    by (metis mset_append mset_subset_eq_add_left)
  from perm have rest: "mset ?all - mset (recent5 d) = mset rest"
    by (metis add_diff_cancel_left' mset_append)
  from srt have top: "sorted_wrt ?desc (recent5 d)"
    and older: "\<forall>x \<in> set (recent5 d). \<forall>y \<in> set rest. ?desc x y"
    by (simp_all add: sorted_wrt_append)
  have unselected: "\<forall>y \<in># mset ?all - mset (recent5 d).
      \<forall>x \<in> set (recent5 d). i_createdAt (snd y) \<le> i_createdAt (snd x)"
    using older by (simp add: rest)
  have members: "\<forall>x \<in> set (recent5 d).
      fst x \<in> set (properties d) \<and> snd x \<in> set (inquiries (fst x))"
  proof
    fix x assume "x \<in> set (recent5 d)"
    then have "x \<in> set ?all"
      using sub by (meson mset_subset_eqD set_mset_mset in_multiset_in_set)
    then show "fst x \<in> set (properties d) \<and> snd x \<in> set (inquiries (fst x))"
      by (auto simp: set_unwind_inquiries)
  qed
  have store: "\<forall>p \<in> set (properties d). \<forall>i \<in> set (inquiries p).
      (p, i) \<in> set (recent5 d) \<or>
      (\<forall>x \<in> set (recent5 d). i_createdAt i \<le> i_createdAt (snd x))"
  proof (intro ballI)
    fix p i assume "p \<in> set (properties d)" and "i \<in> set (inquiries p)"
    then have "(p, i) \<in> set ?all"
      by (simp add: set_unwind_inquiries)
    then have "(p, i) \<in> set (recent5 d) \<or> (p, i) \<in> set rest"
      using perm by (metis Un_iff set_append set_mset_mset)
    moreover have "\<forall>x \<in> set (recent5 d). i_createdAt i \<le> i_createdAt (snd x)"
      if "(p, i) \<in> set rest"
    proof
      fix x assume "x \<in> set (recent5 d)"
      with older that have "i_createdAt (snd (p, i)) \<le> i_createdAt (snd x)"
        by blast
      then show "i_createdAt i \<le> i_createdAt (snd x)"
        by simp
    qed
    ultimately show "(p, i) \<in> set (recent5 d) \<or>
      (\<forall>x \<in> set (recent5 d). i_createdAt i \<le> i_createdAt (snd x))"
      by blast
  qed
  have resolved: "\<forall>r \<in> set (recentInquiries d).
      \<exists>x \<in> set (recent5 d). \<exists>u \<in> set (users d).
        Some (u_id u) = i_user (snd x) \<and> r = project (fst x, snd x, u)"
  proof
    fix r assume "r \<in> set (recentInquiries d)"
    then obtain y where y: "y \<in> set (unwind_user (lookup_user (users d) (recent5 d)))"
      and r: "r = project y"
      by (auto simp: recentInquiries_def)
    from join_resolved [OF y] r
    show "\<exists>x \<in> set (recent5 d). \<exists>u \<in> set (users d).
        Some (u_id u) = i_user (snd x) \<and> r = project (fst x, snd x, u)"
      by blast
  qed
  have count: "distinct (map u_id (users d)) \<longrightarrow>
      length (recentInquiries d) = length (filter (resolves (users d)) (recent5 d)) \<and>
      length (recentInquiries d) \<le> 5"
  proof
    assume ids: "distinct (map u_id (users d))"
    have eq: "length (recentInquiries d) = length (filter (resolves (users d)) (recent5 d))"
      by (simp add: recentInquiries_def length_join [OF ids])
    have "length (filter (resolves (users d)) (recent5 d)) \<le> length (recent5 d)"
      by (rule length_filter_le)
    also have "\<dots> \<le> 5"
      by (simp add: length_recent5)
    finally show "length (recentInquiries d) = length (filter (resolves (users d)) (recent5 d)) \<and>
      length (recentInquiries d) \<le> 5"
      using eq by simp
  qed
  have example: "\<exists>d'. distinct (map u_id (users d')) \<and>
         5 \<le> (\<Sum>p\<leftarrow>properties d'. length (inquiries p)) \<and>
         length (recentInquiries d') < 5"
    using fewer_than_five by (intro exI [of _ inquiry_db]) simp
  from set_unwind_inquiries [of "properties d"] length_unwind_inquiries [of "properties d"]
    sub members length_recent5 [of d] top unselected store resolved count example
  show ?thesis by (intro conjI)
qed

theorem recentInquiries_resolved_only_witness:
  "length (recent5 inquiry_db) = 5 \<and>
   map (i_createdAt \<circ> snd) (recent5 inquiry_db) = [320, 240, 230, 220, 210] \<and>
   length (filter (resolves (users inquiry_db)) (recent5 inquiry_db)) = 4 \<and>
   length (recentInquiries inquiry_db) = 4 \<and>
   map ri_createdAt (recentInquiries inquiry_db) = [240, 230, 220, 210] \<and>
   map ri_user_name (recentInquiries inquiry_db) = [''Alice'', ''Bob'', ''Carol'', ''Alice'']"
proof -
  have ids: "distinct (map u_id (users inquiry_db))"
    by code_simp
  have five: "length (recent5 inquiry_db) = 5 \<and>
     map (i_createdAt \<circ> snd) (recent5 inquiry_db) = [320, 240, 230, 220, 210]"
    by code_simp
  have four: "length (filter (resolves (users inquiry_db)) (recent5 inquiry_db)) = 4"
    by code_simp
  have entries: "map ri_createdAt (recentInquiries inquiry_db) = [240, 230, 220, 210] \<and>
     map ri_user_name (recentInquiries inquiry_db) = [''Alice'', ''Bob'', ''Carol'', ''Alice'']"
    by code_simp
  from recentInquiries_resolved_only [of inquiry_db] ids
  have "length (recentInquiries inquiry_db) =
        length (filter (resolves (users inquiry_db)) (recent5 inquiry_db))"
    by blast
  with five four entries show ?thesis by simp
qed

subsection \<open>Favourites\<close>




subsection \<open>Validation of property bodies\<close>

lemma check_Nil: "check ok msg = [] \<longleftrightarrow> ok"
  by (simp add: check_def)

lemma propertyValidation_Nil:
  "propertyValidation b = [] \<longleftrightarrow>
     notEmpty (trim (field_text (b_title b))) \<and>
     notEmpty (trim (field_text (b_description b))) \<and>
     isIn propertyType_enum (field_text (b_propertyType b)) \<and>
     isIn listingType_enum (field_text (b_listingType b)) \<and>
     isNumeric (field_text (b_price b)) \<and>
     isNumeric (field_text (b_area_value b)) \<and>
     notEmpty (trim (field_text (b_address b))) \<and>
     notEmpty (trim (field_text (b_city b))) \<and>
     notEmpty (trim (field_text (b_state b))) \<and>
     notEmpty (trim (field_text (b_pincode b)))"
  by (simp add: propertyValidation_def check_Nil)

lemma absent_fails:
  "\<not> notEmpty (trim (field_text None))"
  "\<not> isIn propertyType_enum (field_text None)"
  "\<not> isIn listingType_enum (field_text None)"
  "\<not> isNumeric (field_text None)"
  by (simp_all add: notEmpty_def trim_def isIn_def isNumeric_def propertyType_enum_def
      listingType_enum_def)

text \<open>
  Claim C9. \<open>PUT /properties/:id\<close> runs the validation chains of creation: a body that
  omits any of title, description, propertyType, listingType, price, area.value,
  location.address, location.city, location.state or location.pincode is answered 400
  with the list of field errors, whoever the actor is (owner and admin included) and
  whatever the store holds, and the store is left as it was.
\<close>

theorem put_rejects_partial_body:
  assumes "b_title b = None \<or> b_description b = None \<or> b_propertyType b = None \<or>
           b_listingType b = None \<or> b_price b = None \<or> b_area_value b = None \<or>
           b_address b = None \<or> b_city b = None \<or> b_state b = None \<or> b_pincode b = None"
  shows "propertyValidation b \<noteq> [] \<and>
         put_property rt d a i b = ((400, Errors (propertyValidation b)), d)"
proof -
  have "propertyValidation b \<noteq> []"
    using assms absent_fails by (auto simp: propertyValidation_Nil)
  then show ?thesis
    by (simp add: put_property_def Let_def)
qed

theorem put_rejects_partial_body_witness:
  "put_property example_runtime example_db (as_actor alice) 10 (plot_body\<lparr>b_price := None\<rparr>) =
     ((400, Errors [''Price must be a number'']), example_db) \<and>
   put_property example_runtime example_db (as_actor carol) 10 (plot_body\<lparr>b_city := None\<rparr>) =
     ((400, Errors [''City is required'']), example_db)"
proof -
  have v1: "propertyValidation (plot_body\<lparr>b_price := None\<rparr>) = [''Price must be a number'']"
    by code_simp
  have v2: "propertyValidation (plot_body\<lparr>b_city := None\<rparr>) = [''City is required'']"
    by code_simp
  from put_rejects_partial_body [of "plot_body\<lparr>b_price := None\<rparr>" example_runtime example_db
      "as_actor alice" 10]
    put_rejects_partial_body [of "plot_body\<lparr>b_city := None\<rparr>" example_runtime example_db
      "as_actor carol" 10]
  show ?thesis by (simp add: v1 v2)
qed

subsection \<open>Creation\<close>

lemma propertyValidation_owner:
  "propertyValidation (b\<lparr>b_owner := x\<rparr>) = propertyValidation b"
  by (simp add: propertyValidation_def)

lemma sanitized_then_owner:
  "(sanitized (b\<lparr>b_owner := x\<rparr>))\<lparr>b_owner := y\<rparr> = (sanitized b)\<lparr>b_owner := y\<rparr>"
  by (simp add: sanitized_def)

lemma Property_create_owner:
  "Property_create rt new_id now b = Inr p \<Longrightarrow> b_owner b = Some (owner p)"
  by (cases "b_owner b"; cases "b_coordinates b"; cases "cast_value rt (b_price b)";
      cases "cast_value rt (b_area_value b)")
    (auto simp: Property_create_def split: if_splits)


lemma post_property_cases:
  "post_property rt new_id now d a b =
     (if propertyValidation b \<noteq> [] then ((400, Errors (propertyValidation b)), d)
      else (case Property_create rt new_id now ((sanitized b)\<lparr>b_owner := Some (a_id a)\<rparr>) of
              Inl e \<Rightarrow> ((500, Failure ''Error creating property''), d)
            | Inr p \<Rightarrow> ((201, Property_data p), d\<lparr>properties := properties d @ [p]\<rparr>)))"
  by (simp add: post_property_def Let_def)

text \<open>
  Claim C2. Whenever \<open>POST /properties\<close> answers 201, the document it returns and
  appends to the collection has the authenticated actor's id as \<open>owner\<close>; and two requests
  by the same actor against the same store whose bodies differ only in the \<open>owner\<close> field
  (any value, or none) have the same response and leave the same store.
\<close>

theorem create_owner_is_actor:
  "(fst (fst (post_property rt new_id now d a b)) = 201 \<longrightarrow>
      (\<exists>p. post_property rt new_id now d a b =
              ((201, Property_data p), d\<lparr>properties := properties d @ [p]\<rparr>) \<and>
           owner p = a_id a)) \<and>
   post_property rt new_id now d a (b\<lparr>b_owner := x\<rparr>) =
   post_property rt new_id now d a (b\<lparr>b_owner := y\<rparr>)"
proof
  show "fst (fst (post_property rt new_id now d a b)) = 201 \<longrightarrow>
      (\<exists>p. post_property rt new_id now d a b =
              ((201, Property_data p), d\<lparr>properties := properties d @ [p]\<rparr>) \<and>
           owner p = a_id a)"
  proof
    assume ok: "fst (fst (post_property rt new_id now d a b)) = 201"
    let ?doc = "(sanitized b)\<lparr>b_owner := Some (a_id a)\<rparr>"
    from ok have valid: "propertyValidation b = []"
      by (auto simp: post_property_cases split: if_splits)
    from ok valid obtain p where p: "Property_create rt new_id now ?doc = Inr p"
      by (cases "Property_create rt new_id now ?doc") (auto simp: post_property_cases)
    from Property_create_owner [OF p] have "owner p = a_id a" by simp
    with valid p show "\<exists>p. post_property rt new_id now d a b =
              ((201, Property_data p), d\<lparr>properties := properties d @ [p]\<rparr>) \<and>
           owner p = a_id a"
      by (simp add: post_property_cases)
  qed
next
  show "post_property rt new_id now d a (b\<lparr>b_owner := x\<rparr>) =
        post_property rt new_id now d a (b\<lparr>b_owner := y\<rparr>)"
    by (simp add: post_property_cases sanitized_then_owner propertyValidation_owner)
qed

theorem create_owner_is_actor_witness:
  "(\<exists>p. post_property example_runtime 12 300 example_db (as_actor bob) plot_body =
          ((201, Property_data p), example_db\<lparr>properties := properties example_db @ [p]\<rparr>) \<and>
        owner p = 2) \<and>
   post_property example_runtime 12 300 example_db (as_actor bob) (plot_body\<lparr>b_owner := Some 1\<rparr>) =
   post_property example_runtime 12 300 example_db (as_actor bob) (plot_body\<lparr>b_owner := None\<rparr>)"
proof -
  have ok: "fst (fst (post_property example_runtime 12 300 example_db (as_actor bob) plot_body)) = 201"
    by code_simp
  have bob: "a_id (as_actor bob) = 2"
    by (simp add: as_actor_def bob_def)
  from create_owner_is_actor [of example_runtime 12 300 example_db "as_actor bob" plot_body
      "Some 1" None] ok bob
  show ?thesis by simp
qed












subsection \<open>The ownership check\<close>

text \<open>
  Claim C3, as amended. For a property that exists and an actor who is neither its owner
  nor an admin: DELETE answers 403, PUT answers 403 when the body passes the validation
  chains and 400 with the field errors when it does not, and in every case the store is
  left as it was. For an actor who is the owner or an admin neither handler answers 403:
  the one predicate \<open>canMutate\<close> decides the check of both handlers.
\<close>

theorem mutation_guard:
  assumes "findById i (properties d) = Some p"
  shows "(\<not> canMutate a p \<longrightarrow>
            put_property rt d a i b =
              (if propertyValidation b = []
               then ((403, Failure ''Not authorized to update this property''), d)
               else ((400, Errors (propertyValidation b)), d)) \<and>
            delete_property d a i =
              ((403, Failure ''Not authorized to delete this property''), d)) \<and>
         (canMutate a p \<longrightarrow>
            fst (fst (put_property rt d a i b)) \<noteq> 403 \<and>
            fst (fst (delete_property d a i)) \<noteq> 403)"
  using assms
  by (auto simp: canMutate_def put_property_def delete_property_def Let_def
      split: sum.splits option.splits prod.splits)

theorem mutation_guard_witness:
  "put_property example_runtime example_db (as_actor bob) 10 plot_body =
     ((403, Failure ''Not authorized to update this property''), example_db) \<and>
   put_property example_runtime example_db (as_actor bob) 10 empty_body =
     ((400, Errors (propertyValidation empty_body)), example_db) \<and>
   delete_property example_db (as_actor bob) 10 =
     ((403, Failure ''Not authorized to delete this property''), example_db) \<and>
   fst (fst (put_property example_runtime example_db (as_actor carol) 10 plot_body)) \<noteq> 403 \<and>
   fst (fst (delete_property example_db (as_actor alice) 10)) \<noteq> 403"
proof -
  have found: "findById 10 (properties example_db) = Some flat"
    by (simp add: findById_def example_db_def flat_def)
  have nb: "\<not> canMutate (as_actor bob) flat"
    by (simp add: canMutate_def as_actor_def bob_def flat_def)
  have yc: "canMutate (as_actor carol) flat"
    by (simp add: canMutate_def as_actor_def carol_def)
  have ya: "canMutate (as_actor alice) flat"
    by (simp add: canMutate_def as_actor_def alice_def flat_def)
  have v1: "propertyValidation plot_body = []"
    by code_simp
  have v2: "propertyValidation empty_body \<noteq> []"
    by code_simp
  from mutation_guard [OF found, of "as_actor bob" example_runtime plot_body]
    mutation_guard [OF found, of "as_actor bob" example_runtime empty_body]
    mutation_guard [OF found, of "as_actor carol" example_runtime plot_body]
    mutation_guard [OF found, of "as_actor alice" example_runtime plot_body]
    nb yc ya v1 v2
  show ?thesis by simp
qed

text \<open>
  The claim as stated fails: validation runs before the ownership check, so an update by
  an actor who is neither owner nor admin is answered 400, not 403, when its body does not
  pass validation (the store is unchanged all the same).
\<close>

theorem mutation_guard_counterexample:
  "findById 10 (properties example_db) = Some flat \<and>
   \<not> canMutate (as_actor bob) flat \<and>
   fst (fst (put_property example_runtime example_db (as_actor bob) 10 empty_body)) = 400 \<and>
   snd (put_property example_runtime example_db (as_actor bob) 10 empty_body) = example_db"
  by code_simp

subsection \<open>The owner of a property after an update\<close>

lemma apply_update_owner:
  assumes "apply_update rt b p = Inr p'"
  shows "owner p' = (case b_owner b of None \<Rightarrow> owner p | Some i \<Rightarrow> i)"
proof -
  from assms have "p' = updated rt b p"
    by (simp add: apply_update_def split: if_splits)
  then show ?thesis
    by (cases "b_owner b") (simp_all add: updated_def)
qed

text \<open>An update that goes through stores the \<open>owner\<close> of the body, when it carries one.\<close>

lemma put_property_owner:
  assumes found: "findById i (properties d) = Some p"
    and allowed: "canMutate a p"
    and valid: "propertyValidation b = []"
    and applied: "apply_update rt (sanitized b) p = Inr p'"
  shows "put_property rt d a i b =
           ((200, Property_data p'),
            d\<lparr>properties := replace_first (\<lambda>x. p_id x = i) p' (properties d)\<rparr>) \<and>
         owner p' = (case b_owner b of None \<Rightarrow> owner p | Some j \<Rightarrow> j)"
proof -
  have "b_owner (sanitized b) = b_owner b"
    by (simp add: sanitized_def)
  with apply_update_owner [OF applied]
  have "owner p' = (case b_owner b of None \<Rightarrow> owner p | Some j \<Rightarrow> j)"
    by simp
  moreover have "put_property rt d a i b =
           ((200, Property_data p'),
            d\<lparr>properties := replace_first (\<lambda>x. p_id x = i) p' (properties d)\<rparr>)"
    using found allowed valid applied
    by (auto simp: put_property_def findByIdAndUpdate_def canMutate_def Let_def)
  ultimately show ?thesis
    by simp
qed

text \<open>
  Claim C1 (the code departs from it). Alice owns property 10 of the example store. Her
  update with a complete body, \<open>location.coordinates\<close> included, that also carries
  \<open>owner: 2\<close> passes validation and is answered 200, and the stored document then has
  owner 2: \<open>findByIdAndUpdate\<close> is given the whole request body, whereas creation
  overrides the body's \<open>owner\<close> with the actor's id. (The same body without
  \<open>location.coordinates\<close> fails the validators of the schema, is answered 500, and
  leaves the store as it was.)
\<close>

theorem put_overwrites_owner:
  "map_option owner (findById 10 (properties example_db)) = Some 1 \<and>
   a_id (as_actor alice) = 1 \<and>
   propertyValidation (plot_body\<lparr>b_owner := Some 2\<rparr>) = [] \<and>
   fst (fst (put_property example_runtime example_db (as_actor alice) 10
               (plot_body\<lparr>b_owner := Some 2\<rparr>))) = 200 \<and>
   map_option owner
     (findById 10 (properties (snd (put_property example_runtime example_db (as_actor alice) 10
                                       (plot_body\<lparr>b_owner := Some 2\<rparr>))))) = Some 2 \<and>
   put_property example_runtime example_db (as_actor alice) 10
       (plot_body\<lparr>b_coordinates_type := None, b_coordinates := None, b_owner := Some 2\<rparr>) =
     ((500, Failure ''Error updating property''), example_db)"
  by code_simp

subsection \<open>Doubles: whole numbers and quotients\<close>

text \<open>The binade of a positive number brackets it between two powers of two.\<close>

lemma bitlen_powi:
  assumes "0 < (p::int)"
  shows "(2::rat) powi (bitlen p - 1) \<le> of_int p \<and> of_int p < (2::rat) powi bitlen p"
proof -
  from assms have b: "1 \<le> bitlen p"
    by (auto simp: bitlen_alt_def)
  from bitlen_bounds [OF assms]
  have lo: "(2::int) ^ nat (bitlen p - 1) \<le> p" and hi: "p < (2::int) ^ nat (bitlen p)"
    by auto
  from lo have "(of_int ((2::int) ^ nat (bitlen p - 1))::rat) \<le> of_int p"
    by (simp only: of_int_le_iff)
  moreover from hi have "(of_int p::rat) < of_int ((2::int) ^ nat (bitlen p))"
    by (simp only: of_int_less_iff)
  ultimately show ?thesis
    using b by (simp add: power_int_nonneg_exp)
qed

lemma binade_bounds:
  assumes "0 < x"
  shows "2 powi binade x \<le> x \<and> x < 2 powi (binade x + 1)"
proof -
  obtain p q where pq: "quotient_of x = (p, q)"
    by (cases "quotient_of x")
  then have q: "0 < q" and x: "x = of_int p / of_int q"
    by (auto dest: quotient_of_denom_pos quotient_of_div)
  from assms q x have p: "0 < p"
    by (simp add: zero_less_divide_iff)
  define e where "e = bitlen p - bitlen q"
  from bitlen_powi [OF p] bitlen_powi [OF q]
  have p1: "(2::rat) powi (bitlen p - 1) \<le> of_int p" and p2: "of_int p < (2::rat) powi bitlen p"
    and q1: "(2::rat) powi (bitlen q - 1) \<le> of_int q" and q2: "of_int q < (2::rat) powi bitlen q"
    by auto
  have qpos: "(0::rat) < of_int q" using q by simp
  have ppos: "(0::rat) < of_int p" using p by simp
  have lower: "2 powi (e - 1) < x"
  proof -
    have eq: "e - 1 = (bitlen p - 1) - bitlen q"
      by (simp add: e_def)
    have "2 powi (e - 1) = (2::rat) powi (bitlen p - 1) / 2 powi bitlen q"
      unfolding eq by (rule power_int_diff) simp
    also have "\<dots> \<le> of_int p / 2 powi bitlen q"
      using p1 by (simp add: divide_right_mono)
    also have "\<dots> < of_int p / of_int q"
      using q2 qpos ppos by (simp add: divide_strict_left_mono)
    finally show ?thesis by (simp add: x)
  qed
  have upper: "x < 2 powi (e + 1)"
  proof -
    have "x = of_int p / of_int q" by (rule x)
    also have "\<dots> < 2 powi bitlen p / of_int q"
      using p2 qpos by (simp add: divide_strict_right_mono)
    also have "\<dots> \<le> 2 powi bitlen p / 2 powi (bitlen q - 1)"
      using q1 by (intro frac_le) simp_all
    finally have "x < 2 powi bitlen p / 2 powi (bitlen q - 1)" .
    moreover have eq: "e + 1 = bitlen p - (bitlen q - 1)"
      by (simp add: e_def)
    have "(2::rat) powi (e + 1) = 2 powi bitlen p / 2 powi (bitlen q - 1)"
      unfolding eq by (rule power_int_diff) simp
    ultimately show ?thesis by (simp only:)
  qed
  have b: "binade x = (if 2 powi e \<le> x then e else e - 1)"
    by (simp add: binade_def pq e_def Let_def)
  show ?thesis
  proof (cases "2 powi e \<le> x")
    case True
    with b upper show ?thesis by simp
  next
    case False
    with b lower show ?thesis by simp
  qed
qed

lemma round_half_even_of_int: "round_half_even (of_int n) = n"
  by (simp add: round_half_even_def)

lemma round_half_even_le:
  assumes "y \<le> of_int N"
  shows "round_half_even y \<le> N"
proof -
  have f: "\<lfloor>y\<rfloor> \<le> N"
    using assms by (simp add: floor_le_iff) 
  show ?thesis
  proof (cases "\<lfloor>y\<rfloor> = N")
    case True
    with assms have "y = of_int N"
      by (metis floor_correct order_antisym_conv)
    then show ?thesis by (simp add: round_half_even_of_int)
  next
    case False
    with f have "\<lfloor>y\<rfloor> + 1 \<le> N" by simp
    then show ?thesis
      by (simp add: round_half_even_def Let_def)
  qed
qed

lemma round_half_even_gt:
  assumes "of_int N + 1 / 2 < y"
  shows "N < round_half_even y"
proof -
  from assms have f: "N \<le> \<lfloor>y\<rfloor>"
    by (simp add: le_floor_iff)
  show ?thesis
  proof (cases "N = \<lfloor>y\<rfloor>")
    case True
    with assms have "1 / 2 < y - of_int \<lfloor>y\<rfloor>"
      by simp
    then show ?thesis
      using True by (simp add: round_half_even_def Let_def)
  next
    case False
    with f have "N < \<lfloor>y\<rfloor>" by simp
    then show ?thesis
      by (simp add: round_half_even_def Let_def)
  qed
qed

text \<open>A number between \<open>2^-1022\<close> and \<open>2^53\<close> that lies above the whole number \<open>n - 1\<close> by more
  than the relative precision of a double is rounded to a number above \<open>n - 1\<close> and not
  above \<open>n\<close>.\<close>

lemma round_double_between:
  assumes pos: "0 < x" and lo: "2 powi (- 1022) \<le> x" and hi: "x < 2 ^ 53"
    and le_n: "x \<le> of_int n" and gap: "of_int (n - 1) + x / 2 ^ 53 < x"
  shows "\<exists>r. round_double x = Fin r \<and> of_int (n - 1) < r \<and> r \<le> of_int n"
proof -
  define e where "e = binade x"
  from binade_bounds [OF pos] have e1: "2 powi e \<le> x" and e2: "x < 2 powi (e + 1)"
    by (simp_all add: e_def)
  have e_lo: "- 1022 \<le> e"
  proof (rule ccontr)
    assume "\<not> - 1022 \<le> e"
    then have "e + 1 \<le> - 1022" by simp
    then have "(2::rat) powi (e + 1) \<le> 2 powi (- 1022)"
      by (intro power_int_increasing) simp_all
    with e2 lo show False by simp
  qed
  have e_hi: "e \<le> 52"
  proof (rule ccontr)
    assume "\<not> e \<le> 52"
    then have "53 \<le> e" by simp
    then have "(2::rat) powi 53 \<le> 2 powi e"
      by (intro power_int_increasing) simp_all
    with e1 hi show False by simp
  qed
  define k where "k = nat (52 - e)"
  define ulp :: rat where "ulp = 2 powi (e - 52)"
  have ulp_pos: "0 < ulp"
    by (simp add: ulp_def)
  have ulp_inv: "ulp * 2 ^ k = 1"
  proof -
    have "(2::rat) ^ k = 2 powi (52 - e)"
      using e_hi by (simp add: k_def power_int_nonneg_exp)
    then have "ulp * 2 ^ k = 2 powi (e - 52) * 2 powi (52 - e)"
      by (simp add: ulp_def)
    also have "\<dots> = 2 powi ((e - 52) + (52 - e))"
      by (rule power_int_add [symmetric]) simp
    finally show ?thesis by simp
  qed
  then have div_ulp: "z / ulp = z * 2 ^ k" for z
    using ulp_pos by (simp add: field_simps)
  have scale: "of_int (z * 2 ^ k) * ulp = of_int z" for z
  proof -
    have "of_int (z * 2 ^ k) * ulp = of_int z * (ulp * 2 ^ k)"
      by simp
    then show ?thesis
      by (simp only: ulp_inv mult_1_right)
  qed
  have half: "ulp / 2 \<le> x / 2 ^ 53"
  proof -
    have "ulp * 2 powi 52 = 2 powi ((e - 52) + 52)"
      unfolding ulp_def by (rule power_int_add [symmetric]) simp
    then have "ulp * 2 ^ 52 = 2 powi e"
      by simp
    with e1 have "ulp * 2 ^ 52 \<le> x"
      by simp
    then show ?thesis
      by (simp add: field_simps)
  qed
  define m where "m = round_half_even (x / ulp)"
  define r where "r = of_int m * ulp"
  have "x / ulp \<le> of_int (n * 2 ^ k)"
    using le_n by (simp add: div_ulp mult_right_mono)
  then have "m \<le> n * 2 ^ k"
    unfolding m_def by (rule round_half_even_le)
  then have "(of_int m :: rat) \<le> of_int (n * 2 ^ k)"
    by (simp only: of_int_le_iff)
  then have "r \<le> of_int (n * 2 ^ k) * ulp"
    unfolding r_def using ulp_pos by (simp add: mult_right_mono)
  then have r_le: "r \<le> of_int n"
    by (simp only: scale)
  have "of_int (n - 1) + ulp / 2 < x"
    using gap half by linarith
  then have "(of_int (n - 1) + ulp / 2) * 2 ^ k < x * 2 ^ k"
    by (simp add: mult_strict_right_mono)
  then have "of_int ((n - 1) * 2 ^ k) + 1 / 2 < x / ulp"
    using ulp_inv by (simp add: div_ulp algebra_simps)
  then have "(n - 1) * 2 ^ k < m"
    unfolding m_def by (rule round_half_even_gt)
  then have "(of_int ((n - 1) * 2 ^ k) :: rat) < of_int m"
    by (simp only: of_int_less_iff)
  then have "of_int ((n - 1) * 2 ^ k) * ulp < r"
    unfolding r_def using ulp_pos by (simp add: mult_strict_right_mono)
  then have r_gt: "of_int (n - 1) < r"
    by (simp only: scale)
  have n_pos: "0 \<le> n - 1"
  proof -
    from pos le_n have "(0::rat) < of_int n" by simp
    then show ?thesis by simp
  qed
  with r_gt have r_pos: "0 < r"
    by (metis of_int_0_le_iff order_le_less_trans)
  have n_le: "n \<le> 2 ^ 53"
  proof -
    have "0 < x / 2 ^ 53"
      using pos by simp
    with gap hi have "of_int (n - 1) < (2::rat) ^ 53"
      by linarith
    then have "of_int (n - 1) < (of_int (2 ^ 53) :: rat)"
      by simp
    then have "n - 1 < 2 ^ 53"
      by (simp only: of_int_less_iff)
    then show ?thesis by simp
  qed
  have r_small: "binade \<bar>r\<bar> \<le> 1023"
  proof (rule ccontr)
    assume "\<not> binade \<bar>r\<bar> \<le> 1023"
    then have "54 \<le> binade r"
      using r_pos by simp
    then have "(2::rat) powi 54 \<le> 2 powi binade r"
      by (intro power_int_increasing) simp_all
    also have "\<dots> \<le> r"
      using binade_bounds [OF r_pos] by simp
    also have "r \<le> of_int n"
      by (rule r_le)
    also have "(of_int n :: rat) \<le> of_int (2 ^ 53)"
      using n_le by (simp only: of_int_le_iff)
    finally show False
      by simp
  qed
  have m_nz: "m \<noteq> 0"
    using r_pos by (auto simp: r_def)
  have "round_double x = Fin r"
    using pos r_pos r_small e_lo m_nz
    by (simp add: round_double_def Let_def e_def [symmetric] max_def ulp_def [symmetric]
        m_def [symmetric] r_def [symmetric])
  with r_gt r_le show ?thesis by blast
qed

text \<open>For a whole limit the quotient is rounded, but its ceiling is that of the exact
  quotient.\<close>

lemma ceil_div_double:
  fixes a :: nat and l :: int
  assumes a: "a < 2 ^ 53" and l1: "1 \<le> l" and l2: "l \<le> 2 ^ 53"
  shows "Math_ceil (js_divide (Fin (of_nat a)) (Fin (of_int l))) =
         Fin (of_int \<lceil>(of_nat a :: rat) / of_int l\<rceil>)"
proof (cases "a = 0")
  case True
  then show ?thesis
    using l1 by (simp add: round_double_def)
next
  case False
  define x :: rat where "x = of_nat a / of_int l"
  define n where "n = \<lceil>x\<rceil>"
  have lpos: "(0::rat) < of_int l"
    using l1 by simp
  have apos: "(0::rat) < of_nat a"
    using False by simp
  have pos: "0 < x"
    using lpos apos by (simp add: x_def)
  have a_rat: "(of_nat a :: rat) < 2 ^ 53"
  proof -
    have "(of_nat a :: rat) < of_nat (2 ^ 53)"
      using a by (simp only: of_nat_less_iff)
    then show ?thesis by simp
  qed
  have l_rat: "(of_int l :: rat) \<le> 2 ^ 53"
  proof -
    have "(of_int l :: rat) \<le> of_int (2 ^ 53)"
      using l2 by (simp only: of_int_le_iff)
    then show ?thesis by simp
  qed
  have one_a: "(1::rat) \<le> of_nat a"
    using False by (simp add: Suc_leI)
  have one_l: "(1::rat) \<le> of_int l"
    using l1 by simp
  have inv_l: "1 / 2 ^ 53 \<le> 1 / (of_int l :: rat)"
    using l_rat lpos by (intro divide_left_mono) simp_all
  have x_ge: "1 / of_int l \<le> x"
    unfolding x_def using one_a lpos by (intro divide_right_mono) simp_all
  have lo: "2 powi (- 1022) \<le> x"
  proof -
    have "(2::rat) powi (- 1022) \<le> 2 powi (- 53)"
      by (intro power_int_increasing) simp_all
    also have "\<dots> = 1 / 2 ^ 53"
      by (simp add: power_int_minus field_simps)
    also have "\<dots> \<le> x"
      using inv_l x_ge by simp
    finally show ?thesis .
  qed
  have hi: "x < 2 ^ 53"
  proof -
    have "x \<le> of_nat a"
      unfolding x_def using one_l apos by (simp add: field_simps)
    with a_rat show ?thesis by simp
  qed
  have le_n: "x \<le> of_int n"
    by (simp add: n_def)
  have gap: "of_int (n - 1) + x / 2 ^ 53 < x"
  proof -
    have "of_int (n - 1) * of_int l < (of_nat a :: rat)"
    proof -
      have "of_int (n - 1) < x"
        unfolding n_def by linarith
      then show ?thesis
        using lpos by (simp add: x_def field_simps)
    qed
    then have "(of_int ((n - 1) * l) :: rat) < of_int (int a)"
      by simp
    then have "(n - 1) * l < int a"
      by (simp only: of_int_less_iff)
    then have "(n - 1) * l + 1 \<le> int a"
      by simp
    then have "(of_int ((n - 1) * l + 1) :: rat) \<le> of_int (int a)"
      by (simp only: of_int_le_iff)
    then have "of_int (n - 1) * of_int l + 1 \<le> (of_nat a :: rat)"
      by simp
    then have "(of_int (n - 1) * of_int l + 1) / of_int l \<le> (of_nat a :: rat) / of_int l"
      using lpos by (intro divide_right_mono) simp_all
    then have step: "of_int (n - 1) + 1 / of_int l \<le> x"
      using lpos by (simp add: x_def add_divide_distrib)
    have "x / 2 ^ 53 < 1 / of_int l"
    proof -
      have "(of_nat a :: rat) / 2 ^ 53 < 1"
        using a_rat by simp
      then have "((of_nat a :: rat) / 2 ^ 53) / of_int l < 1 / of_int l"
        using lpos by (intro divide_strict_right_mono) simp_all
      then show ?thesis
        by (simp add: x_def)
    qed
    with step show ?thesis by linarith
  qed
  from round_double_between [OF pos lo hi le_n gap]
  obtain r where r: "round_double x = Fin r" "of_int (n - 1) < r" "r \<le> of_int n"
    by blast
  have "\<lceil>r\<rceil> = n"
    using r(2,3) by (simp add: ceiling_unique)
  with r(1) show ?thesis
    using lpos by (simp add: x_def [symmetric] n_def)
qed

lemma round_double_one: "round_double 1 = Fin 1"
  by code_simp

text \<open>Whole numbers below \<open>2^53\<close> in absolute value are doubles.\<close>

lemma round_double_of_int:
  assumes "\<bar>k\<bar> < 2 ^ 53"
  shows "round_double (of_int k) = Fin (of_int k)"
proof (cases "k = 0")
  case True
  then show ?thesis by (simp add: round_double_def)
next
  case False
  define x :: rat where "x = of_int \<bar>k\<bar>"
  have pos: "0 < x"
    using False by (simp add: x_def)
  define e where "e = binade x"
  from binade_bounds [OF pos] have e1: "2 powi e \<le> x" and e2: "x < 2 powi (e + 1)"
    by (simp_all add: e_def)
  have one: "1 \<le> x"
  proof -
    have "1 \<le> \<bar>k\<bar>"
      using False by simp
    then have "(of_int 1 :: rat) \<le> of_int \<bar>k\<bar>"
      by (simp only: of_int_le_iff)
    then show ?thesis by (simp add: x_def)
  qed
  have hi: "x < 2 ^ 53"
  proof -
    have "(of_int \<bar>k\<bar> :: rat) < of_int (2 ^ 53)"
      using assms by (simp only: of_int_less_iff)
    then show ?thesis by (simp add: x_def)
  qed
  have e_lo: "0 \<le> e"
  proof (rule ccontr)
    assume "\<not> 0 \<le> e"
    then have "e + 1 \<le> 0" by simp
    then have "(2::rat) powi (e + 1) \<le> 2 powi 0"
      by (intro power_int_increasing) simp_all
    with e2 one show False by simp
  qed
  have e_hi: "e \<le> 52"
  proof (rule ccontr)
    assume "\<not> e \<le> 52"
    then have "53 \<le> e" by simp
    then have "(2::rat) powi 53 \<le> 2 powi e"
      by (intro power_int_increasing) simp_all
    with e1 hi show False by simp
  qed
  define j where "j = nat (52 - e)"
  define ulp :: rat where "ulp = 2 powi (e - 52)"
  have ulp_pos: "0 < ulp"
    by (simp add: ulp_def)
  have ulp_inv: "ulp * 2 ^ j = 1"
  proof -
    have "(2::rat) ^ j = 2 powi (52 - e)"
      using e_hi by (simp add: j_def power_int_nonneg_exp)
    then have "ulp * 2 ^ j = 2 powi (e - 52) * 2 powi (52 - e)"
      by (simp add: ulp_def)
    also have "\<dots> = 2 powi ((e - 52) + (52 - e))"
      by (rule power_int_add [symmetric]) simp
    finally show ?thesis by simp
  qed
  then have div_ulp: "z / ulp = z * 2 ^ j" for z
    using ulp_pos by (simp add: field_simps)
  have "of_int k / ulp = of_int (k * 2 ^ j)"
    by (simp add: div_ulp)
  then have m: "round_half_even (of_int k / ulp) = k * 2 ^ j"
    by (simp only: round_half_even_of_int)
  have r: "of_int (k * 2 ^ j) * ulp = of_int k"
  proof -
    have "of_int (k * 2 ^ j) * ulp = of_int k * (ulp * 2 ^ j)"
      by simp
    then show ?thesis
      by (simp only: ulp_inv mult_1_right)
  qed
  have abs_x: "\<bar>of_int k :: rat\<bar> = x"
    by (simp add: x_def)
  have "round_double (of_int k) = Fin (of_int k)"
    using False e_lo e_hi
    by (simp add: round_double_def Let_def abs_x e_def [symmetric] max_def ulp_def [symmetric]
        m r del: of_int_mult of_int_power)
  then show ?thesis .
qed

lemma round_half_even_ge:
  assumes "of_int N \<le> y"
  shows "N \<le> round_half_even y"
proof -
  have "N \<le> \<lfloor>y\<rfloor>"
    using assms by (simp add: le_floor_iff)
  then show ?thesis
    by (simp add: round_half_even_def Let_def)
qed

text \<open>Numbers from \<open>2^1024\<close> on are rounded to Infinity: the quotient of a total of two or
  more by a limit of at most \<open>2^-1023\<close> is Infinity, and \<open>pages\<close> is then written as
  \<open>null\<close>.\<close>

lemma round_double_overflow:
  assumes big: "2 powi 1024 \<le> x"
  shows "round_double x = PInf"
proof -
  have pos: "0 < x"
    using big by (rule order_less_le_trans [rotated]) simp
  define e where "e = binade x"
  from binade_bounds [OF pos] have e1: "2 powi e \<le> x" and e2: "x < 2 powi (e + 1)"
    by (simp_all add: e_def)
  have e_lo: "1024 \<le> e"
  proof (rule ccontr)
    assume "\<not> 1024 \<le> e"
    then have "e + 1 \<le> 1024" by simp
    then have "(2::rat) powi (e + 1) \<le> 2 powi 1024"
      by (intro power_int_increasing) simp_all
    with e2 big show False by simp
  qed
  define ulp :: rat where "ulp = 2 powi (e - 52)"
  have ulp_pos: "0 < ulp"
    by (simp add: ulp_def)
  have split: "2 powi e = (2::rat) ^ 52 * ulp"
  proof -
    have "(2::rat) powi (52 + (e - 52)) = 2 powi 52 * 2 powi (e - 52)"
      by (rule power_int_add) simp
    then show ?thesis by (simp add: ulp_def)
  qed
  define m where "m = round_half_even (x / ulp)"
  define r where "r = of_int m * ulp"
  have "of_int (2 ^ 52) \<le> x / ulp"
    using e1 ulp_pos by (simp add: split field_simps)
  then have "2 ^ 52 \<le> m"
    unfolding m_def by (rule round_half_even_ge)
  then have "(of_int (2 ^ 52) :: rat) \<le> of_int m"
    by (simp only: of_int_le_iff)
  then have "of_int (2 ^ 52) * ulp \<le> r"
    unfolding r_def using ulp_pos by (simp add: mult_right_mono)
  then have r_ge: "2 powi e \<le> r"
    by (simp add: split)
  have r_pos: "0 < r"
    using r_ge by (rule order_less_le_trans [rotated]) simp
  have r_big: "1023 < binade \<bar>r\<bar>"
  proof (rule ccontr)
    assume "\<not> 1023 < binade \<bar>r\<bar>"
    then have "binade r + 1 \<le> e"
      using r_pos e_lo by simp
    then have "(2::rat) powi (binade r + 1) \<le> 2 powi e"
      by (intro power_int_increasing) simp_all
    with binade_bounds [OF r_pos] r_ge show False by simp
  qed
  have e_max: "max e (- 1022) = e"
    using e_lo by simp
  have m_nz: "m \<noteq> 0"
    using r_pos by (auto simp: r_def)
  show ?thesis
    using pos r_pos r_big m_nz
    by (simp add: round_double_def Let_def e_def [symmetric] e_max ulp_def [symmetric]
        m_def [symmetric] r_def [symmetric])
qed

lemma tiny_limit_overflows:
  assumes "0 < l" and "l \<le> 2 powi (- 1023)" and "2 \<le> n"
  shows "js_divide (Fin (of_nat n)) (Fin l) = PInf"
proof -
  have "(2::rat) powi 1024 = 2 / 2 powi (- 1023)"
  proof -
    have "(2::rat) powi (1 + 1023) = 2 powi 1 * 2 powi 1023"
      by (rule power_int_add) simp
    then show ?thesis
      by (simp add: power_int_minus)
  qed
  also have "\<dots> \<le> 2 / l"
    using assms(1,2) by (intro divide_left_mono) simp_all
  also have "\<dots> \<le> of_nat n / l"
    using assms(1,3) by (intro divide_right_mono) simp_all
  finally have "round_double (of_nat n / l) = PInf"
    by (rule round_double_overflow)
  then show ?thesis
    using assms(1) by simp
qed

text \<open>With a limit that is not a whole number the rounded quotient can reach a whole number
  that the exact quotient exceeds: 7 / 0.7 is 10, and 1 / 0.3333333333333333 is 3, so that
  \<open>Math.ceil\<close> gives 10 and 3 where the ceilings of the exact quotients of the two doubles
  are 11 and 4.\<close>

lemma rounding_examples:
  "js_divide (Fin 7) (round_double (7 / 10)) = Fin 10"
  "js_divide (Fin 1) (round_double (3333333333333333 / 10 ^ 16)) = Fin 3"
  by code_simp+

subsection \<open>Pagination\<close>

lemma get_properties_page:
  assumes "get_properties rt d q = (200, Page_data pg)"
  shows "\<exists>found. matching rt d q = Some found \<and> total pg = length found \<and>
           page pg = json_number (js_times (to_number rt (or_default (q_page q) (Fin 1))) (Fin 1)) \<and>
           pages pg = json_number (Math_ceil (js_divide (Fin (of_nat (length found)))
                        (to_number rt (or_default (q_limit q) (Fin 10)))))"
  using assms
  by (auto simp: get_properties_def Let_def split: option.splits if_splits)

lemma get_admin_users_page:
  assumes "get_admin_users rt d q = (200, Page_data pg)"
  shows "total pg = length (filter (\<lambda>u. eq_cond (assigned (uq_role q)) (role u)) (users d)) \<and>
           page pg = json_number (js_times (to_number rt (or_default (uq_page q) (Fin 1))) (Fin 1)) \<and>
           pages pg = json_number (Math_ceil (js_divide (Fin (of_nat (total pg)))
                        (to_number rt (or_default (uq_limit q) (Fin 10)))))"
  using assms
  by (auto simp: get_admin_users_def Let_def split: option.splits if_splits)

lemma get_admin_pending_page:
  assumes "get_admin_pending rt d q = (200, Page_data pg)"
  shows "total pg = length (filter (\<lambda>p. status p = ''pending'') (properties d)) \<and>
           page pg = json_number (js_times (to_number rt (or_default (pq_page q) (Fin 1))) (Fin 1)) \<and>
           pages pg = json_number (Math_ceil (js_divide (Fin (of_nat (total pg)))
                        (to_number rt (or_default (pq_limit q) (Fin 10)))))"
  using assms
  by (auto simp: get_admin_pending_def Let_def split: option.splits if_splits)

lemma pages_ceiling:
  assumes "n < 2 ^ 53" and "1 \<le> l" and "l \<le> 2 ^ 53"
  shows "json_number (Math_ceil (js_divide (Fin (of_nat n)) (Fin (of_int l)))) =
           Some (of_int \<lceil>(of_nat n :: rat) / of_int l\<rceil>)"
  by (simp only: ceil_div_double [OF assms] json_number.simps)

lemma page_times_one:
  assumes "\<bar>k\<bar> < 2 ^ 53"
  shows "json_number (js_times (Fin (of_int k)) (Fin 1)) = Some (of_int k)"
  using round_double_of_int [OF assms] by simp

lemma page_default: "json_number (js_times (Fin 1) (Fin 1)) = Some 1"
  using page_times_one [of 1] by simp

lemma pagination_fields:
  assumes lim: "to_number rt (or_default lm (Fin 10)) = Fin (of_int l)"
    and l1: "1 \<le> l" and l2: "l \<le> 2 ^ 53"
    and small: "total pg < 2 ^ 53"
    and pg: "page pg = json_number (js_times (to_number rt (or_default pm (Fin 1))) (Fin 1))"
    and pgs: "pages pg = json_number (Math_ceil (js_divide (Fin (of_nat (total pg)))
                (to_number rt (or_default lm (Fin 10)))))"
  shows "pages pg = Some (of_int \<lceil>(of_nat (total pg) :: rat) / of_int l\<rceil>) \<and>
         (total pg = 0 \<longrightarrow> pages pg = Some 0) \<and>
         (pm = None \<longrightarrow> page pg = Some 1) \<and>
         (\<forall>s k. pm = Some s \<and> ToNumber rt s = Fin (of_int k) \<and> \<bar>k\<bar> < 2 ^ 53 \<longrightarrow>
            page pg = Some (of_int k))"
proof -
  have a: "pages pg = Some (of_int \<lceil>(of_nat (total pg) :: rat) / of_int l\<rceil>)"
    by (simp only: pgs lim pages_ceiling [OF small l1 l2])
  have b: "total pg = 0 \<longrightarrow> pages pg = Some 0"
    using a by simp
  have c: "pm = None \<longrightarrow> page pg = Some 1"
    using pg page_default by simp
  have d: "\<forall>s k. pm = Some s \<and> ToNumber rt s = Fin (of_int k) \<and> \<bar>k\<bar> < 2 ^ 53 \<longrightarrow>
            page pg = Some (of_int k)"
    using pg page_times_one by simp
  from a b c d show ?thesis
    by (intro conjI)
qed

text \<open>
  Claim C5, as amended. Let the limit of a paginated listing request (10 when the
  parameter is absent, the coerced text otherwise) be a whole number \<open>l\<close> with
  \<open>1 \<le> l \<le> 2^53\<close>. Then every 200 response of \<open>GET /properties\<close>, \<open>GET /admin/users\<close>
  and \<open>GET /admin/properties/pending\<close> whose \<open>total\<close> is below \<open>2^53\<close> reports
  \<open>pages = ceil(total / l)\<close>, the ceiling of the exact quotient, which is 0 when \<open>total\<close>
  is 0; it reports page 1 when the page parameter is absent, and the coerced number when
  the parameter is the text of a whole number below \<open>2^53\<close> in absolute value.
\<close>

theorem pagination_pages:
  assumes "to_number rt (or_default lm (Fin 10)) = Fin (of_int l)"
    and "1 \<le> l" and "l \<le> 2 ^ 53"
  shows "(lm = None \<longrightarrow> l = 10) \<and>
         (\<forall>pg. q_limit q = lm \<and> get_properties rt d q = (200, Page_data pg) \<and>
               total pg < 2 ^ 53 \<longrightarrow>
            pages pg = Some (of_int \<lceil>(of_nat (total pg) :: rat) / of_int l\<rceil>) \<and>
            (total pg = 0 \<longrightarrow> pages pg = Some 0) \<and>
            (q_page q = None \<longrightarrow> page pg = Some 1) \<and>
            (\<forall>s k. q_page q = Some s \<and> ToNumber rt s = Fin (of_int k) \<and> \<bar>k\<bar> < 2 ^ 53 \<longrightarrow>
               page pg = Some (of_int k))) \<and>
         (\<forall>pg. uq_limit uq = lm \<and> get_admin_users rt d uq = (200, Page_data pg) \<and>
               total pg < 2 ^ 53 \<longrightarrow>
            pages pg = Some (of_int \<lceil>(of_nat (total pg) :: rat) / of_int l\<rceil>) \<and>
            (total pg = 0 \<longrightarrow> pages pg = Some 0) \<and>
            (uq_page uq = None \<longrightarrow> page pg = Some 1) \<and>
            (\<forall>s k. uq_page uq = Some s \<and> ToNumber rt s = Fin (of_int k) \<and> \<bar>k\<bar> < 2 ^ 53 \<longrightarrow>
               page pg = Some (of_int k))) \<and>
         (\<forall>pg. pq_limit pq = lm \<and> get_admin_pending rt d pq = (200, Page_data pg) \<and>
               total pg < 2 ^ 53 \<longrightarrow>
            pages pg = Some (of_int \<lceil>(of_nat (total pg) :: rat) / of_int l\<rceil>) \<and>
            (total pg = 0 \<longrightarrow> pages pg = Some 0) \<and>
            (pq_page pq = None \<longrightarrow> page pg = Some 1) \<and>
            (\<forall>s k. pq_page pq = Some s \<and> ToNumber rt s = Fin (of_int k) \<and> \<bar>k\<bar> < 2 ^ 53 \<longrightarrow>
               page pg = Some (of_int k)))"
proof -
  have default: "lm = None \<longrightarrow> l = 10"
  proof
    assume "lm = None"
    with assms(1) have "(of_int l :: rat) = of_int 10"
      by simp
    then show "l = 10"
      by (simp only: of_int_eq_iff)
  qed
  have listing: "pages pg = Some (of_int \<lceil>(of_nat (total pg) :: rat) / of_int l\<rceil>) \<and>
            (total pg = 0 \<longrightarrow> pages pg = Some 0) \<and>
            (q_page q = None \<longrightarrow> page pg = Some 1) \<and>
            (\<forall>s k. q_page q = Some s \<and> ToNumber rt s = Fin (of_int k) \<and> \<bar>k\<bar> < 2 ^ 53 \<longrightarrow>
               page pg = Some (of_int k))"
    if "q_limit q = lm" and "get_properties rt d q = (200, Page_data pg)"
      and "total pg < 2 ^ 53" for pg
  proof -
    from get_properties_page [OF that(2)] that(1)
    have "page pg = json_number (js_times (to_number rt (or_default (q_page q) (Fin 1))) (Fin 1))"
      and "pages pg = json_number (Math_ceil (js_divide (Fin (of_nat (total pg)))
                (to_number rt (or_default lm (Fin 10)))))"
      by auto
    with assms that(3) show ?thesis
      by (rule pagination_fields)
  qed
  have users: "pages pg = Some (of_int \<lceil>(of_nat (total pg) :: rat) / of_int l\<rceil>) \<and>
            (total pg = 0 \<longrightarrow> pages pg = Some 0) \<and>
            (uq_page uq = None \<longrightarrow> page pg = Some 1) \<and>
            (\<forall>s k. uq_page uq = Some s \<and> ToNumber rt s = Fin (of_int k) \<and> \<bar>k\<bar> < 2 ^ 53 \<longrightarrow>
               page pg = Some (of_int k))"
    if "uq_limit uq = lm" and "get_admin_users rt d uq = (200, Page_data pg)"
      and "total pg < 2 ^ 53" for pg
  proof -
    from get_admin_users_page [OF that(2)] that(1)
    have "page pg = json_number (js_times (to_number rt (or_default (uq_page uq) (Fin 1))) (Fin 1))"
      and "pages pg = json_number (Math_ceil (js_divide (Fin (of_nat (total pg)))
                (to_number rt (or_default lm (Fin 10)))))"
      by auto
    with assms that(3) show ?thesis
      by (rule pagination_fields)
  qed
  have pending: "pages pg = Some (of_int \<lceil>(of_nat (total pg) :: rat) / of_int l\<rceil>) \<and>
            (total pg = 0 \<longrightarrow> pages pg = Some 0) \<and>
            (pq_page pq = None \<longrightarrow> page pg = Some 1) \<and>
            (\<forall>s k. pq_page pq = Some s \<and> ToNumber rt s = Fin (of_int k) \<and> \<bar>k\<bar> < 2 ^ 53 \<longrightarrow>
               page pg = Some (of_int k))"
    if "pq_limit pq = lm" and "get_admin_pending rt d pq = (200, Page_data pg)"
      and "total pg < 2 ^ 53" for pg
  proof -
    from get_admin_pending_page [OF that(2)] that(1)
    have "page pg = json_number (js_times (to_number rt (or_default (pq_page pq) (Fin 1))) (Fin 1))"
      and "pages pg = json_number (Math_ceil (js_divide (Fin (of_nat (total pg)))
                (to_number rt (or_default lm (Fin 10)))))"
      by auto
    with assms that(3) show ?thesis
      by (rule pagination_fields)
  qed
  from default listing users pending show ?thesis
    by blast
qed

theorem pagination_pages_witness:
  "get_properties example_runtime example_db no_filter =
     (200, Page_data \<lparr>total = 2, page = Some 1, pages = Some 1\<rparr>) \<and>
   get_admin_users example_runtime example_db
       \<lparr>uq_page = Some ''2'', uq_limit = Some ''2'', uq_role = None\<rparr> =
     (200, Page_data \<lparr>total = 3, page = Some 2, pages = Some 2\<rparr>) \<and>
   get_admin_pending example_runtime empty_db \<lparr>pq_page = None, pq_limit = Some ''2''\<rparr> =
     (200, Page_data \<lparr>total = 0, page = Some 1, pages = Some 0\<rparr>)"
proof -
  have ten: "to_number example_runtime (or_default None (Fin 10)) = Fin (of_int 10)"
    by simp
  have two: "to_number example_runtime (or_default (Some ''2'') (Fin 10)) = Fin (of_int 2)"
    by code_simp
  have r1: "get_properties example_runtime example_db no_filter =
     (200, Page_data \<lparr>total = 2, page = Some 1, pages = Some 1\<rparr>)"
    by code_simp
  have r2: "get_admin_users example_runtime example_db
       \<lparr>uq_page = Some ''2'', uq_limit = Some ''2'', uq_role = None\<rparr> =
     (200, Page_data \<lparr>total = 3, page = Some 2, pages = Some 2\<rparr>)"
    by code_simp
  have r3: "get_admin_pending example_runtime empty_db \<lparr>pq_page = None, pq_limit = Some ''2''\<rparr> =
     (200, Page_data \<lparr>total = 0, page = Some 1, pages = Some 0\<rparr>)"
    by code_simp
  from pagination_pages [OF ten, where q = no_filter and d = example_db]
    pagination_pages [OF two,
      where uq = "\<lparr>uq_page = Some ''2'', uq_limit = Some ''2'', uq_role = None\<rparr>"
        and d = example_db and pq = "\<lparr>pq_page = None, pq_limit = Some ''2''\<rparr>"]
    r1 r2 r3
  show ?thesis by simp
qed

text \<open>
  The claim as stated fails for a limit that coerces to 0: the division is by zero, its
  result is NaN (for \<open>total = 0\<close>) or Infinity, \<open>Math.ceil\<close> keeps it, and the response
  carries \<open>pages: null\<close>, not 0 and not a number.
\<close>

theorem pagination_pages_counterexample:
  "to_number example_runtime (or_default (Some ''0'') (Fin 10)) = Fin 0 \<and>
   get_properties example_runtime empty_db (no_filter\<lparr>q_limit := Some ''0''\<rparr>) =
     (200, Page_data \<lparr>total = 0, page = Some 1, pages = None\<rparr>) \<and>
   get_admin_users example_runtime example_db
       \<lparr>uq_page = None, uq_limit = Some ''0'', uq_role = None\<rparr> =
     (200, Page_data \<lparr>total = 3, page = Some 1, pages = None\<rparr>)"
  by code_simp

subsection \<open>The listing filter is relaxed by omitting a parameter\<close>

lemma matching_Some:
  "matching rt d q = Some found \<longleftrightarrow>
     (\<exists>mq. build_query rt q = Some mq \<and> castable rt mq \<and>
           found = filter (matches rt mq) (properties d))"
  by (auto simp: matching_def split: option.splits)

lemma assigned_None: "assigned None = None"
  by (simp add: assigned_def)

lemma build_query_SomeD:
  assumes "build_query rt q = Some mq"
  obtains c s where "assigned_regexp rt (q_city q) = Some c"
    and "assigned_regexp rt (q_state q) = Some s"
    and "mq = \<lparr>mq_propertyType = assigned (q_propertyType q),
                mq_listingType = assigned (q_listingType q),
                mq_city = c,
                mq_state = s,
                mq_bedrooms = assigned (q_bedrooms q),
                mq_bathrooms = assigned (q_bathrooms q),
                mq_amenities_in = map_option split_comma (assigned (q_amenities q)),
                mq_price =
                  (if truthy (q_minPrice q) \<or> truthy (q_maxPrice q)
                   then Some \<lparr>gte = assigned_number rt (q_minPrice q),
                              lte = assigned_number rt (q_maxPrice q)\<rparr>
                   else None)\<rparr>"
  using assms by (auto simp: build_query_def split: option.splits)

lemma relax:
  assumes "build_query rt q = Some mq" and "castable rt mq"
  shows "\<exists>mq'. build_query rt (omit f q) = Some mq' \<and> castable rt mq' \<and>
           (\<forall>p. matches rt mq p \<longrightarrow> matches rt mq' p)"
proof -
  from assms(1) obtain c s where c: "assigned_regexp rt (q_city q) = Some c"
    and s: "assigned_regexp rt (q_state q) = Some s"
    and mq: "mq = \<lparr>mq_propertyType = assigned (q_propertyType q),
                mq_listingType = assigned (q_listingType q),
                mq_city = c,
                mq_state = s,
                mq_bedrooms = assigned (q_bedrooms q),
                mq_bathrooms = assigned (q_bathrooms q),
                mq_amenities_in = map_option split_comma (assigned (q_amenities q)),
                mq_price =
                  (if truthy (q_minPrice q) \<or> truthy (q_maxPrice q)
                   then Some \<lparr>gte = assigned_number rt (q_minPrice q),
                              lte = assigned_number rt (q_maxPrice q)\<rparr>
                   else None)\<rparr>"
    by (rule build_query_SomeD)
  note defs = build_query_def castable_def matches_def assigned_None
  show ?thesis
  proof (cases f)
    case PropertyType
    with c s assms(2) show ?thesis by (auto simp: defs mq split: if_splits)
  next
    case ListingType
    with c s assms(2) show ?thesis by (auto simp: defs mq split: if_splits)
  next
    case City
    with c s assms(2) show ?thesis by (auto simp: defs mq split: if_splits)
  next
    case State
    with c s assms(2) show ?thesis by (auto simp: defs mq split: if_splits)
  next
    case Bedrooms
    with c s assms(2) show ?thesis by (auto simp: defs mq split: if_splits)
  next
    case Bathrooms
    with c s assms(2) show ?thesis by (auto simp: defs mq split: if_splits)
  next
    case Amenities
    with c s assms(2) show ?thesis by (auto simp: defs mq split: if_splits)
  next
    case MinPrice
    with c s assms(2) show ?thesis
      by (cases "truthy (q_minPrice q)"; cases "truthy (q_maxPrice q)")
        (auto simp: defs mq split: if_splits)
  next
    case MaxPrice
    with c s assms(2) show ?thesis
      by (cases "truthy (q_minPrice q)"; cases "truthy (q_maxPrice q)")
        (auto simp: defs mq split: if_splits)
  qed
qed

lemma filter_mono:
  assumes "\<forall>x. P x \<longrightarrow> Q x"
  shows "set (filter P xs) \<subseteq> set (filter Q xs) \<and> length (filter P xs) \<le> length (filter Q xs)"
  using assms by (induction xs) auto

lemma build_query_no_filter:
  assumes "q_propertyType q = None" "q_listingType q = None" "q_city q = None"
    "q_state q = None" "q_bedrooms q = None" "q_bathrooms q = None" "q_amenities q = None"
    "q_minPrice q = None" "q_maxPrice q = None"
  shows "matching rt d q = Some (properties d)"
  using assms
  by (simp add: matching_def build_query_def castable_def matches_def assigned_None)

text \<open>
  Claim C4. For every store and every request whose filter is executed, the request
  with any one of the nine filter parameters removed is executed too, and every document
  matched before is still matched, so the matching set grows or stays the same (and so
  does the count reported as \<open>total\<close>). A request with none of the nine parameters matches
  every property: absent parameters impose no constraint.
\<close>

theorem filter_monotone:
  "(\<forall>found. matching rt d q = Some found \<longrightarrow>
      (\<exists>found'. matching rt d (omit f q) = Some found' \<and>
                set found \<subseteq> set found' \<and> length found \<le> length found')) \<and>
   (q_propertyType q = None \<and> q_listingType q = None \<and> q_city q = None \<and>
    q_state q = None \<and> q_bedrooms q = None \<and> q_bathrooms q = None \<and>
    q_amenities q = None \<and> q_minPrice q = None \<and> q_maxPrice q = None \<longrightarrow>
      matching rt d q = Some (properties d))"
proof (intro conjI allI impI)
  fix found
  assume "matching rt d q = Some found"
  then obtain mq where mq: "build_query rt q = Some mq" and ok: "castable rt mq"
    and found: "found = filter (matches rt mq) (properties d)"
    by (auto simp: matching_Some)
  from relax [OF mq ok, of f] obtain mq' where mq': "build_query rt (omit f q) = Some mq'"
    and ok': "castable rt mq'" and weaker: "\<forall>p. matches rt mq p \<longrightarrow> matches rt mq' p"
    by blast
  from mq' ok' have "matching rt d (omit f q) = Some (filter (matches rt mq') (properties d))"
    by (simp add: matching_def)
  with filter_mono [OF weaker, of "properties d"] found
  show "\<exists>found'. matching rt d (omit f q) = Some found' \<and>
                set found \<subseteq> set found' \<and> length found \<le> length found'"
    by simp
next
  assume "q_propertyType q = None \<and> q_listingType q = None \<and> q_city q = None \<and>
    q_state q = None \<and> q_bedrooms q = None \<and> q_bathrooms q = None \<and>
    q_amenities q = None \<and> q_minPrice q = None \<and> q_maxPrice q = None"
  then show "matching rt d q = Some (properties d)"
    by (simp add: build_query_no_filter)
qed

theorem filter_monotone_witness:
  "matching example_runtime example_db
     (no_filter\<lparr>q_city := Some ''pune'', q_maxPrice := Some ''6000000''\<rparr>) = Some [flat] \<and>
   matching example_runtime example_db
     (omit City (no_filter\<lparr>q_city := Some ''pune'', q_maxPrice := Some ''6000000''\<rparr>)) =
     Some [flat, villa] \<and>
   matching example_runtime example_db no_filter = Some [flat, villa]"
proof -
  let ?q = "no_filter\<lparr>q_city := Some ''pune'', q_maxPrice := Some ''6000000''\<rparr>"
  have m1: "matching example_runtime example_db ?q = Some [flat]"
    by code_simp
  have m2: "matching example_runtime example_db (omit City ?q) = Some [flat, villa]"
    by code_simp
  have none: "q_propertyType no_filter = None \<and> q_listingType no_filter = None \<and>
    q_city no_filter = None \<and> q_state no_filter = None \<and> q_bedrooms no_filter = None \<and>
    q_bathrooms no_filter = None \<and> q_amenities no_filter = None \<and>
    q_minPrice no_filter = None \<and> q_maxPrice no_filter = None"
    by (simp add: no_filter_def)
  have all: "properties example_db = [flat, villa]"
    by (simp add: example_db_def)
  from filter_monotone [of example_runtime example_db ?q City] m1 m2
    filter_monotone [of example_runtime example_db no_filter City] none all
  show ?thesis by simp
qed

end
